theory Spec2Isabelle
  imports Complex_Main
begin

section \<open>JavaScript values\<close>

text \<open>
  The two serverless handlers (the stock price handler and \<^verbatim>\<open>api/transcript.js\<close>) pass
  JSON payloads through without computing on them, so a JavaScript value is modelled by its
  shape only. A number is a finite value or one of the three special values; no arithmetic
  is done on it. A JavaScript string is modelled by the bytes of its UTF-8 encoding, so an
  ASCII character is one \<open>char\<close> and any other code point is a lead byte followed by
  continuation bytes. Concatenation, emptiness and the search for an ASCII substring are the
  same on the bytes as on the JavaScript string.
  An object is the list of its own properties, one entry for each key.
\<close>

datatype jsnumber = Finite rat | NaN | PosInfinity | NegInfinity

datatype jsval =
    JUndefined
  | JNull
  | JBool bool
  | JNum jsnumber
  | JStr string
  | JArr "jsval list"
  | JObj "(string \<times> jsval) list"

text \<open>Truthiness, as \<^verbatim>\<open>!x\<close> and \<^verbatim>\<open>x && y\<close> use it.\<close>

fun truthy :: "jsval \<Rightarrow> bool" where
  "truthy JUndefined = False"
| "truthy JNull = False"
| "truthy (JBool b) = b"
| "truthy (JNum (Finite r)) = (r \<noteq> 0)"
| "truthy (JNum NaN) = False"
| "truthy (JNum PosInfinity) = True"
| "truthy (JNum NegInfinity) = True"
| "truthy (JStr s) = (s \<noteq> [])"
| "truthy (JArr xs) = True"
| "truthy (JObj ps) = True"

text \<open>
  Property read \<^verbatim>\<open>v.k\<close>. The handlers read only \<^verbatim>\<open>price\<close>, \<^verbatim>\<open>exchange\<close> and
  \<^verbatim>\<open>transcript\<close> from parsed JSON, and success flags from objects they built themselves;
  none of these names is a property of a string, a number, a boolean or an array, so the read
  gives \<^verbatim>\<open>undefined\<close> on everything but an object that has the key.
\<close>

fun get_prop :: "jsval \<Rightarrow> string \<Rightarrow> jsval" where
  "get_prop (JObj ps) k = (case map_of ps k of Some v \<Rightarrow> v | None \<Rightarrow> JUndefined)"
| "get_prop v k = JUndefined"

fun has_prop :: "jsval \<Rightarrow> string \<Rightarrow> bool" where
  "has_prop (JObj ps) k = (k \<in> set (map fst ps))"
| "has_prop v k = False"

text \<open>Writing a property of an object literal: an existing key keeps its place.\<close>

fun set_prop :: "string \<Rightarrow> jsval \<Rightarrow> (string \<times> jsval) list \<Rightarrow> (string \<times> jsval) list" where
  "set_prop k v [] = [(k, v)]"
| "set_prop k v ((k', v') # ps) = (if k = k' then (k, v) # ps else (k', v') # set_prop k v ps)"

text \<open>
  The properties a spread \<^verbatim>\<open>{...v}\<close> copies. A falsy primitive contributes nothing. The
  only truthy value the handlers spread is the transcript payload, which has a truthy
  \<^verbatim>\<open>transcript\<close> property and is therefore an object; the index keys of arrays and strings
  are not modelled.
\<close>

fun spread :: "jsval \<Rightarrow> (string \<times> jsval) list" where
  "spread (JObj ps) = ps"
| "spread v = []"

definition is_finite_number :: "jsval \<Rightarrow> bool" where
  "is_finite_number v = (case v of JNum (Finite r) \<Rightarrow> True | _ \<Rightarrow> False)"

section \<open>Strings\<close>

fun startsWith :: "string \<Rightarrow> string \<Rightarrow> bool" where
  "startsWith s [] = True"
| "startsWith [] (p # ps) = False"
| "startsWith (c # cs) (p # ps) = (c = p \<and> startsWith cs ps)"

text \<open>\<^verbatim>\<open>s.includes(sub)\<close>: \<^verbatim>\<open>sub\<close> occurs somewhere in \<^verbatim>\<open>s\<close>, case-sensitively.\<close>

fun str_includes :: "string \<Rightarrow> string \<Rightarrow> bool" where
  "str_includes [] sub = (sub = [])"
| "str_includes (c # cs) sub = (startsWith (c # cs) sub \<or> str_includes cs sub)"

subsection \<open>Code points, toUpperCase and trim\<close>

text \<open>
  \<open>code_points\<close> cuts a string into its code points: each byte together with the
  continuation bytes (\<open>0x80\<close> to \<open>0xBF\<close>) that follow it.
\<close>

definition is_ascii :: "char \<Rightarrow> bool" where
  "is_ascii c = ((of_char c :: nat) < 128)"

definition is_continuation :: "char \<Rightarrow> bool" where
  "is_continuation c = (128 \<le> (of_char c :: nat) \<and> (of_char c :: nat) < 192)"

function code_points :: "string \<Rightarrow> string list" where
  "code_points [] = []"
| "code_points (c # cs) =
     (c # takeWhile is_continuation cs) # code_points (dropWhile is_continuation cs)"
  by pat_completeness auto
termination
  by (relation "measure length") (simp_all add: length_dropWhile_le less_Suc_eq_le)

text \<open>
  \<^verbatim>\<open>s.toUpperCase()\<close> maps the string code point by code point. On ASCII it turns
  \<^verbatim>\<open>a\<close> to \<^verbatim>\<open>z\<close> into \<^verbatim>\<open>A\<close> to \<^verbatim>\<open>Z\<close> and changes nothing else. The upper case
  of any other code point comes from the Unicode tables of the runtime (it may be several
  code points, as \<^verbatim>\<open>SS\<close> for U+00DF); these tables are the parameter \<open>unicode_upper\<close>,
  from the bytes of one code point to the bytes of its upper case.
\<close>

definition upper_table :: "(char \<times> char) list" where
  "upper_table = zip ''abcdefghijklmnopqrstuvwxyz'' ''ABCDEFGHIJKLMNOPQRSTUVWXYZ''"

definition ascii_upper :: "char \<Rightarrow> char" where
  "ascii_upper c = (case map_of upper_table c of Some u \<Rightarrow> u | None \<Rightarrow> c)"

definition toUpperCase :: "(string \<Rightarrow> string) \<Rightarrow> string \<Rightarrow> string" where
  "toUpperCase unicode_upper s =
     concat (map (\<lambda>cp. if list_all is_ascii cp then map ascii_upper cp else unicode_upper cp)
                 (code_points s))"

text \<open>
  The code points that \<^verbatim>\<open>trim()\<close> and \<^verbatim>\<open>parseInt\<close> strip, white space and line
  terminators: U+0009 to U+000D, U+0020, U+00A0, U+1680, U+2000 to U+200A, U+2028, U+2029,
  U+202F, U+205F, U+3000 and U+FEFF, each in UTF-8.
\<close>

definition white_space :: "string list" where
  "white_space =
     [[CHR 0x09], [CHR 0x0A], [CHR 0x0B], [CHR 0x0C], [CHR 0x0D], [CHR 0x20],
      [CHR 0xC2, CHR 0xA0],
      [CHR 0xE1, CHR 0x9A, CHR 0x80],
      [CHR 0xE2, CHR 0x80, CHR 0x80], [CHR 0xE2, CHR 0x80, CHR 0x81],
      [CHR 0xE2, CHR 0x80, CHR 0x82], [CHR 0xE2, CHR 0x80, CHR 0x83],
      [CHR 0xE2, CHR 0x80, CHR 0x84], [CHR 0xE2, CHR 0x80, CHR 0x85],
      [CHR 0xE2, CHR 0x80, CHR 0x86], [CHR 0xE2, CHR 0x80, CHR 0x87],
      [CHR 0xE2, CHR 0x80, CHR 0x88], [CHR 0xE2, CHR 0x80, CHR 0x89],
      [CHR 0xE2, CHR 0x80, CHR 0x8A],
      [CHR 0xE2, CHR 0x80, CHR 0xA8], [CHR 0xE2, CHR 0x80, CHR 0xA9],
      [CHR 0xE2, CHR 0x80, CHR 0xAF],
      [CHR 0xE2, CHR 0x81, CHR 0x9F],
      [CHR 0xE3, CHR 0x80, CHR 0x80],
      [CHR 0xEF, CHR 0xBB, CHR 0xBF]]"

definition is_whitespace :: "string \<Rightarrow> bool" where
  "is_whitespace cp = (cp \<in> set white_space)"

definition trimStart :: "string \<Rightarrow> string" where
  "trimStart s = concat (dropWhile is_whitespace (code_points s))"

definition trim :: "string \<Rightarrow> string" where
  "trim s = concat (rev (dropWhile is_whitespace (rev (dropWhile is_whitespace (code_points s)))))"

text \<open>
  The test \<^verbatim>\<open>/^[A-Z]{1,5}$/.test(s)\<close>: the whole string is one to five capital letters.
  A string that passes is ASCII, so its bytes are its characters.
\<close>

definition is_upper_letter :: "char \<Rightarrow> bool" where
  "is_upper_letter c = (c \<in> set ''ABCDEFGHIJKLMNOPQRSTUVWXYZ'')"

definition ticker_regex_test :: "string \<Rightarrow> bool" where
  "ticker_regex_test s = (1 \<le> length s \<and> length s \<le> 5 \<and> list_all is_upper_letter s)"

text \<open>Decimal numerals, as a template string and \<^verbatim>\<open>toString()\<close> print an integer.\<close>

definition digit_char :: "nat \<Rightarrow> char" where
  "digit_char d = ''0123456789'' ! d"

function show_nat :: "nat \<Rightarrow> string" where
  "show_nat n = (if n < 10 then [digit_char n] else show_nat (n div 10) @ [digit_char (n mod 10)])"
  by pat_completeness auto
termination
  by (relation "measure id") auto

declare show_nat.simps [simp del]

definition show_int :: "int \<Rightarrow> string" where
  "show_int i = (if i < 0 then CHR ''-'' # show_nat (nat (- i)) else show_nat (nat i))"

subsection \<open>parseInt\<close>

text \<open>
  \<^verbatim>\<open>parseInt(s)\<close> with no radix: leading white space is skipped, one sign is read, a
  \<^verbatim>\<open>0x\<close> or \<^verbatim>\<open>0X\<close> prefix selects radix 16 (radix 10 otherwise), and the longest prefix of
  digits of that radix is the value; whatever follows is ignored. With no digit the result
  is \<^verbatim>\<open>NaN\<close>, here \<open>None\<close>. The value is kept as an exact integer: the handler only
  compares it with 2000, 2030, 1 and 4, which the rounding of a long numeral to a double does
  not change, and prints it only when it lies in one of these ranges.
\<close>

definition digit_table :: "(char \<times> nat) list" where
  "digit_table = zip ''0123456789abcdef'' [0 ..< 16] @ zip ''ABCDEF'' [10 ..< 16]"

definition digit_value :: "nat \<Rightarrow> char \<Rightarrow> nat option" where
  "digit_value radix c =
     (case map_of digit_table c of
        Some d \<Rightarrow> if d < radix then Some d else None
      | None \<Rightarrow> None)"

definition parseInt :: "string \<Rightarrow> int option" where
  "parseInt input =
     (let s = trimStart input;
          neg = startsWith s ''-'';
          s1 = (if startsWith s ''-'' \<or> startsWith s ''+'' then drop 1 s else s);
          hex = (startsWith s1 ''0x'' \<or> startsWith s1 ''0X'');
          radix = (if hex then 16 else 10);
          s2 = (if hex then drop 2 s1 else s1);
          z = takeWhile (\<lambda>c. digit_value radix c \<noteq> None) s2;
          mathInt = foldl (\<lambda>a c. case digit_value radix c of Some d \<Rightarrow> a * radix + d | None \<Rightarrow> a) 0 z
      in if z = [] then None
         else Some (if neg then - int mathInt else int mathInt))"

section \<open>The world the handlers run in\<close>

text \<open>
  The process environment, the clock, the stack text the runtime attaches to an error and the
  upper case of the code points beyond ASCII are parameters. A thrown error is modelled by
  its message.
\<close>

record runtime =
  API_KEY :: "string option"
  NODE_ENV :: "string option"
  now_iso :: string
  stack_of :: "string \<Rightarrow> string"
  unicode_upper :: "string \<Rightarrow> string"

text \<open>
  A query parameter is a string, or an array of strings when the parameter is repeated in
  the URL.
\<close>

datatype qval = QStr string | QArr "string list"

text \<open>Truthiness of \<^verbatim>\<open>req.query.k\<close>; a missing parameter reads as \<^verbatim>\<open>undefined\<close>.\<close>

fun q_truthy :: "qval option \<Rightarrow> bool" where
  "q_truthy None = False"
| "q_truthy (Some (QStr s)) = (s \<noteq> [])"
| "q_truthy (Some (QArr xs)) = True"

fun join_comma :: "string list \<Rightarrow> string" where
  "join_comma [] = []"
| "join_comma [x] = x"
| "join_comma (x # y # ys) = x @ '','' @ join_comma (y # ys)"

text \<open>\<^verbatim>\<open>String(v)\<close>, which \<^verbatim>\<open>parseInt\<close> applies to its argument first.\<close>

fun q_to_string :: "qval option \<Rightarrow> string" where
  "q_to_string None = ''undefined''"
| "q_to_string (Some (QStr s)) = s"
| "q_to_string (Some (QArr xs)) = join_comma xs"

record request =
  req_method :: string
  query :: "string \<Rightarrow> qval option"

record outbound_request =
  url :: string
  out_method :: string
  out_headers :: "(string \<times> string) list"

text \<open>
  What one outbound \<^verbatim>\<open>fetch\<close> does: it throws (a network failure, with the runtime's
  message), or it gives a response with a status, a status text and a body whose
  \<^verbatim>\<open>json()\<close> either throws or parses to a value. \<^verbatim>\<open>response.ok\<close> is true for the
  statuses 200 to 299.
\<close>

datatype json_outcome = JsonThrows string | JsonValue jsval

datatype fetch_outcome = FetchThrows string | Responds nat string json_outcome

definition response_ok :: "nat \<Rightarrow> bool" where
  "response_ok st = (200 \<le> st \<and> st \<le> 299)"

type_synonym upstream = "outbound_request \<Rightarrow> fetch_outcome"

definition api_request :: "string \<Rightarrow> string \<Rightarrow> outbound_request" where
  "api_request u apiKey =
     \<lparr>url = u, out_method = ''GET'',
      out_headers = [(''X-Api-Key'', apiKey), (''Content-Type'', ''application/json'')]\<rparr>"

text \<open>
  The response object: headers set so far, then a status with a JSON body or with none. The
  body is the value handed to \<^verbatim>\<open>res.json\<close>; its serialisation and the console output of
  the handlers are not modelled.
\<close>

record http_response =
  headers :: "(string \<times> string) list"
  statusCode :: nat
  body :: "jsval option"

definition new_response :: http_response where
  "new_response = \<lparr>headers = [], statusCode = 200, body = None\<rparr>"

definition setHeader :: "string \<Rightarrow> string \<Rightarrow> http_response \<Rightarrow> http_response" where
  "setHeader k v res = res\<lparr>headers := filter (\<lambda>h. fst h \<noteq> k) (headers res) @ [(k, v)]\<rparr>"

definition status_json :: "nat \<Rightarrow> jsval \<Rightarrow> http_response \<Rightarrow> http_response" where
  "status_json code v res = res\<lparr>statusCode := code, body := Some v\<rparr>"

definition status_end :: "nat \<Rightarrow> http_response \<Rightarrow> http_response" where
  "status_end code res = res\<lparr>statusCode := code, body := None\<rparr>"

definition set_cors_headers :: "http_response \<Rightarrow> http_response" where
  "set_cors_headers res =
     setHeader ''Access-Control-Allow-Headers'' ''Content-Type''
       (setHeader ''Access-Control-Allow-Methods'' ''GET, OPTIONS''
         (setHeader ''Access-Control-Allow-Origin'' ''*'' res))"

definition cors_headers :: "(string \<times> string) list" where
  "cors_headers =
     [(''Access-Control-Allow-Origin'', ''*''),
      (''Access-Control-Allow-Methods'', ''GET, OPTIONS''),
      (''Access-Control-Allow-Headers'', ''Content-Type'')]"

definition method_not_allowed :: jsval where
  "method_not_allowed =
     JObj [(''error'', JStr ''Method not allowed''),
           (''message'', JStr ''This endpoint only accepts GET requests'')]"

definition server_configuration_error :: jsval where
  "server_configuration_error =
     JObj [(''error'', JStr ''Server configuration error''),
           (''message'', JStr ''API authentication is not properly configured'')]"

text \<open>\<^verbatim>\<open>!apiKey\<close> on an environment variable: unset or the empty string.\<close>

fun env_truthy :: "string option \<Rightarrow> bool" where
  "env_truthy None = False"
| "env_truthy (Some s) = (s \<noteq> [])"

section \<open>The stock price handler\<close>

record company =
  ticker :: string
  name :: string

definition COMPETITORS :: "company list" where
  "COMPETITORS =
     [\<lparr>ticker = ''AAPL'', name = ''Apple Inc.''\<rparr>,
      \<lparr>ticker = ''MSFT'', name = ''Microsoft Corporation''\<rparr>,
      \<lparr>ticker = ''GOOGL'', name = ''Alphabet Inc. (Google)''\<rparr>,
      \<lparr>ticker = ''META'', name = ''Meta Platforms Inc.''\<rparr>,
      \<lparr>ticker = ''AMZN'', name = ''Amazon.com Inc.''\<rparr>]"

text \<open>
  \<^verbatim>\<open>fetchStockPrice\<close> returns the payload or throws (\<open>Inl\<close>, the error's message); the
  second component is the outbound request it issued.
\<close>

definition fetchStockPrice ::
  "upstream \<Rightarrow> string \<Rightarrow> string \<Rightarrow> (string + jsval) \<times> outbound_request list" where
  "fetchStockPrice up tkr apiKey =
     (let rq = api_request (''https://api.api-ninjas.com/v1/stockprice?ticker='' @ tkr) apiKey
      in ((case up rq of
             FetchThrows m \<Rightarrow> Inl m
           | Responds st stText b \<Rightarrow>
               if \<not> response_ok st
               then Inl (''API request failed for '' @ tkr @ '': '' @ show_nat st @ '' '' @ stText)
               else (case b of
                       JsonThrows m \<Rightarrow> Inl m
                     | JsonValue data \<Rightarrow>
                         if \<not> truthy data \<or> get_prop data ''price'' = JUndefined
                         then Inl (''Invalid data received for '' @ tkr)
                         else Inr data)),
          [rq]))"

text \<open>\<^verbatim>\<open>a && b\<close>\<close>

definition js_and :: "jsval \<Rightarrow> jsval \<Rightarrow> jsval" where
  "js_and a b = (if truthy a then b else a)"

text \<open>
  The function mapped over \<^verbatim>\<open>COMPETITORS\<close>: one StockResult for one company, whatever the
  fetch did. The keys of each literal are distinct, so the properties are listed in order.
\<close>

definition stock_result :: "upstream \<Rightarrow> string \<Rightarrow> company \<Rightarrow> jsval \<times> outbound_request list" where
  "stock_result up apiKey c =
     (case fetchStockPrice up (ticker c) apiKey of
        (Inr stockData, calls) \<Rightarrow>
          (JObj ([(''ticker'', JStr (ticker c)),
                  (''companyName'', JStr (name c)),
                  (''price'', get_prop stockData ''price'')]
                 @ spread (js_and (get_prop stockData ''exchange'')
                                  (JObj [(''exchange'', get_prop stockData ''exchange'')]))
                 @ [(''success'', JBool True)]),
           calls)
      | (Inl msg, calls) \<Rightarrow>
          (JObj [(''ticker'', JStr (ticker c)),
                 (''companyName'', JStr (name c)),
                 (''price'', JNull),
                 (''error'', JStr msg),
                 (''success'', JBool False)],
           calls))"

text \<open>
  \<^verbatim>\<open>Promise.all\<close> over promises that all fulfil: \<open>order\<close> lists the indices of the promises
  in the order in which they settle. Each settlement stores the value at the promise's own
  index; the result is delivered once every index is filled, and never (\<open>None\<close>) when some
  promise does not settle.
\<close>

definition promise_all :: "'a list \<Rightarrow> nat list \<Rightarrow> 'a list option" where
  "promise_all results order =
     those (foldl (\<lambda>vals i. if i < length results then vals[i := Some (results ! i)] else vals)
                  (replicate (length results) None) order)"

definition js_length :: "'a list \<Rightarrow> jsval" where
  "js_length xs = JNum (Finite (of_nat (length xs)))"

text \<open>
  The handler. The five fetches are issued in list order while the promises are created;
  \<open>order\<close> is the order in which they complete. Nothing inside the \<^verbatim>\<open>try\<close> block of the
  source throws in this model, so its \<^verbatim>\<open>catch\<close> branch has no counterpart here.
\<close>

definition stocks_handler ::
  "request \<Rightarrow> runtime \<Rightarrow> upstream \<Rightarrow> nat list \<Rightarrow> http_response option \<times> outbound_request list" where
  "stocks_handler req rt up order =
     (let res = set_cors_headers new_response in
      if req_method req = ''OPTIONS'' then (Some (status_end 200 res), [])
      else if req_method req \<noteq> ''GET'' then (Some (status_json 405 method_not_allowed res), [])
      else (case API_KEY rt of
              None \<Rightarrow> (Some (status_json 500 server_configuration_error res), [])
            | Some apiKey \<Rightarrow>
                if apiKey = [] then (Some (status_json 500 server_configuration_error res), [])
                else
                  (let stockPromises = map (stock_result up apiKey) COMPETITORS;
                       calls = concat (map snd stockPromises)
                   in (case promise_all (map fst stockPromises) order of
                         None \<Rightarrow> (None, calls)
                       | Some stockResults \<Rightarrow>
                           (let successfulFetches =
                                  filter (\<lambda>stock. truthy (get_prop stock ''success'')) stockResults
                            in if length successfulFetches = 0
                               then (Some (status_json 503
                                       (JObj [(''error'', JStr ''Service unavailable''),
                                              (''message'', JStr ''Unable to fetch any stock data at this time. Please try again later.''),
                                              (''details'', JArr stockResults)]) res),
                                     calls)
                               else (Some (status_json 200
                                       (JObj [(''timestamp'', JStr (now_iso rt)),
                                              (''dataPoints'', js_length stockResults),
                                              (''successfulFetches'', js_length successfulFetches),
                                              (''stocks'', JArr stockResults)]) res),
                                     calls))))))"

section \<open>The transcript handler\<close>

definition fetchEarningsTranscript ::
  "upstream \<Rightarrow> string \<Rightarrow> string \<Rightarrow> string \<Rightarrow> string \<Rightarrow> (string + jsval) \<times> outbound_request list" where
  "fetchEarningsTranscript up tkr yr qtr apiKey =
     (let rq = api_request
                 (''https://api.api-ninjas.com/v1/earningstranscript?ticker='' @ tkr
                    @ ''&year='' @ yr @ ''&quarter='' @ qtr) apiKey
      in ((case up rq of
             FetchThrows m \<Rightarrow> Inl m
           | Responds st stText b \<Rightarrow>
               if \<not> response_ok st
               then (if st = 404
                     then Inl (''No transcript found for '' @ tkr @ '' '' @ yr @ '' Q'' @ qtr
                               @ ''. The earnings call may not be available yet or the parameters may be incorrect.'')
                     else Inl (''API request failed: '' @ show_nat st @ '' '' @ stText))
               else (case b of
                       JsonThrows m \<Rightarrow> Inl m
                     | JsonValue data \<Rightarrow>
                         if \<not> truthy data \<or> \<not> truthy (get_prop data ''transcript'')
                         then Inl (''No transcript data available for '' @ tkr @ '' '' @ yr @ '' Q'' @ qtr)
                         else Inr data)),
          [rq]))"

definition bad_request :: "string \<Rightarrow> string \<Rightarrow> jsval" where
  "bad_request kind msg = JObj [(''error'', JStr kind), (''message'', JStr msg)]"

text \<open>\<^verbatim>\<open>isNaN(n) || n < lo || n > hi\<close> on the result of \<^verbatim>\<open>parseInt\<close>.\<close>

definition out_of_range :: "int option \<Rightarrow> int \<Rightarrow> int \<Rightarrow> bool" where
  "out_of_range n lo hi = (case n of None \<Rightarrow> True | Some i \<Rightarrow> i < lo \<or> i > hi)"

definition number_toString :: "int option \<Rightarrow> string" where
  "number_toString n = (case n of None \<Rightarrow> ''NaN'' | Some i \<Rightarrow> show_int i)"

text \<open>
  The \<^verbatim>\<open>try\<close> block: \<open>Inr\<close> is a response returned from inside it, \<open>Inl\<close> the message of an
  error thrown in it. Calling \<^verbatim>\<open>toUpperCase\<close> on a parameter that is not a string throws a
  \<^verbatim>\<open>TypeError\<close>, whose message is the runtime's.
\<close>

definition transcript_try ::
  "request \<Rightarrow> runtime \<Rightarrow> upstream \<Rightarrow> http_response \<Rightarrow> (string + http_response) \<times> outbound_request list" where
  "transcript_try req rt up res =
     (case API_KEY rt of
        None \<Rightarrow> (Inr (status_json 500 server_configuration_error res), [])
      | Some apiKey \<Rightarrow>
          if apiKey = [] then (Inr (status_json 500 server_configuration_error res), [])
          else if \<not> q_truthy (query req ''ticker'')
          then (Inr (status_json 400 (bad_request ''Missing parameter'' ''Ticker symbol is required'') res), [])
          else if \<not> q_truthy (query req ''year'')
          then (Inr (status_json 400 (bad_request ''Missing parameter'' ''Year is required'') res), [])
          else if \<not> q_truthy (query req ''quarter'')
          then (Inr (status_json 400 (bad_request ''Missing parameter'' ''Quarter is required'') res), [])
          else (case query req ''ticker'' of
                  None \<Rightarrow> (Inl ''Cannot read properties of undefined (reading 'toUpperCase')'', [])
                | Some (QArr xs) \<Rightarrow> (Inl ''ticker.toUpperCase is not a function'', [])
                | Some (QStr t) \<Rightarrow>
                    (let tickerUpper = trim (toUpperCase (unicode_upper rt) t);
                         yearNum = parseInt (q_to_string (query req ''year''));
                         quarterNum = parseInt (q_to_string (query req ''quarter''))
                     in if \<not> ticker_regex_test tickerUpper
                        then (Inr (status_json 400 (bad_request ''Invalid parameter'' ''Ticker must be 1-5 letters'') res), [])
                        else if out_of_range yearNum 2000 2030
                        then (Inr (status_json 400 (bad_request ''Invalid parameter'' ''Year must be between 2000 and 2030'') res), [])
                        else if out_of_range quarterNum 1 4
                        then (Inr (status_json 400 (bad_request ''Invalid parameter'' ''Quarter must be between 1 and 4'') res), [])
                        else (case fetchEarningsTranscript up tickerUpper
                                     (number_toString yearNum) (number_toString quarterNum) apiKey of
                                (Inl msg, calls) \<Rightarrow> (Inl msg, calls)
                              | (Inr transcriptData, calls) \<Rightarrow>
                                  (Inr (status_json 200
                                          (JObj (set_prop ''fetchedAt'' (JStr (now_iso rt))
                                                   (spread transcriptData))) res),
                                   calls)))))"

text \<open>The \<^verbatim>\<open>catch\<close> block: the status is chosen by a substring test on the message.\<close>

definition transcript_catch :: "runtime \<Rightarrow> string \<Rightarrow> http_response \<Rightarrow> http_response" where
  "transcript_catch rt msg res =
     (let statusCode' = (if str_includes msg ''not found'' then 404 else 500)
      in status_json statusCode'
           (JObj [(''error'', JStr (if statusCode' = 404 then ''Not found'' else ''Internal server error'')),
                  (''message'', JStr msg),
                  (''details'', if NODE_ENV rt = Some ''development'' then JStr (stack_of rt msg)
                                else JUndefined)]) res)"

definition transcript_handler ::
  "request \<Rightarrow> runtime \<Rightarrow> upstream \<Rightarrow> http_response \<times> outbound_request list" where
  "transcript_handler req rt up =
     (let res = set_cors_headers new_response in
      if req_method req = ''OPTIONS'' then (status_end 200 res, [])
      else if req_method req \<noteq> ''GET'' then (status_json 405 method_not_allowed res, [])
      else (case transcript_try req rt up res of
              (Inr response, calls) \<Rightarrow> (response, calls)
            | (Inl msg, calls) \<Rightarrow> (transcript_catch rt msg res, calls)))"

section \<open>Vocabulary of the statements\<close>

text \<open>The fetch for one company throws, whatever the reason.\<close>

definition fetch_fails :: "upstream \<Rightarrow> string \<Rightarrow> company \<Rightarrow> bool" where
  "fetch_fails up apiKey c = isl (fst (fetchStockPrice up (ticker c) apiKey))"

text \<open>The URL \<^verbatim>\<open>fetchEarningsTranscript\<close> requests.\<close>

definition transcript_url :: "string \<Rightarrow> string \<Rightarrow> string \<Rightarrow> string" where
  "transcript_url t y q =
     ''https://api.api-ninjas.com/v1/earningstranscript?ticker='' @ t @ ''&year='' @ y @ ''&quarter='' @ q"

text \<open>
  The messages of the errors that \<^verbatim>\<open>fetch\<close> and \<^verbatim>\<open>response.json()\<close> throw themselves
  come from the runtime, not from the handlers; this says that the one in an outcome, if any,
  is not empty.
\<close>

fun runtime_message_nonempty :: "fetch_outcome \<Rightarrow> bool" where
  "runtime_message_nonempty (FetchThrows m) = (m \<noteq> [])"
| "runtime_message_nonempty (Responds st stText (JsonThrows m)) = (m \<noteq> [])"
| "runtime_message_nonempty (Responds st stText (JsonValue v)) = True"

section \<open>Example runs\<close>

text \<open>Concrete environments, requests and upstream behaviours on which the handlers are run.\<close>

text \<open>
  For the example runs the Unicode tables are cut down to the entry for U+00DF, whose upper
  case is \<^verbatim>\<open>SS\<close>; every other code point beyond ASCII is left as it is.
\<close>

definition example_unicode_upper :: "string \<Rightarrow> string" where
  "example_unicode_upper cp = (if cp = [CHR 0xC3, CHR 0x9F] then ''SS'' else cp)"

definition example_runtime :: runtime where
  "example_runtime =
     \<lparr>API_KEY = Some ''secret'', NODE_ENV = None, now_iso = ''2025-11-10T12:00:00.000Z'',
      stack_of = (\<lambda>m. ''Error: '' @ m), unicode_upper = example_unicode_upper\<rparr>"

definition unconfigured_runtime :: runtime where
  "unconfigured_runtime =
     \<lparr>API_KEY = None, NODE_ENV = None, now_iso = ''2025-11-10T12:00:00.000Z'',
      stack_of = (\<lambda>m. ''Error: '' @ m), unicode_upper = example_unicode_upper\<rparr>"

definition stocks_request :: "string \<Rightarrow> request" where
  "stocks_request m = \<lparr>req_method = m, query = (\<lambda>k. None)\<rparr>"

definition transcript_request :: "string \<Rightarrow> string \<Rightarrow> string \<Rightarrow> request" where
  "transcript_request t y q =
     \<lparr>req_method = ''GET'',
      query = [''ticker'' \<mapsto> QStr t, ''year'' \<mapsto> QStr y, ''quarter'' \<mapsto> QStr q]\<rparr>"

definition upstream_only_msft :: upstream where
  "upstream_only_msft rq =
     (if url rq = ''https://api.api-ninjas.com/v1/stockprice?ticker=MSFT''
      then Responds 200 ''OK''
             (JsonValue (JObj [(''ticker'', JStr ''MSFT''), (''price'', JNum (Finite 420)),
                               (''exchange'', JStr ''NASDAQ'')]))
      else Responds 429 ''Too Many Requests'' (JsonValue JNull))"

definition upstream_404 :: upstream where
  "upstream_404 rq = Responds 404 ''Not Found'' (JsonValue JNull)"

definition upstream_null_price :: upstream where
  "upstream_null_price rq = Responds 200 ''OK'' (JsonValue (JObj [(''price'', JNull)]))"

definition upstream_empty_exchange :: upstream where
  "upstream_empty_exchange rq =
     Responds 200 ''OK'' (JsonValue (JObj [(''price'', JNum (Finite 189)), (''exchange'', JStr '''')]))"

section \<open>Promise.all keeps the input order\<close>

lemma those_eq_Some: "those xs = Some ys \<longleftrightarrow> xs = map Some ys"
proof (induction xs arbitrary: ys)
  case Nil
  then show ?case by auto
next
  case (Cons x xs)
  show ?case
  proof (cases x)
    case None
    then show ?thesis by (cases ys) auto
  next
    case (Some a)
    then show ?thesis using Cons.IH by (cases ys) (auto split: option.splits)
  qed
qed

lemma settle_fold:
  "foldl (\<lambda>vals i. if i < length rs then vals[i := Some (rs ! i)] else vals)
         (replicate (length rs) None) order
   = map (\<lambda>i. if i \<in> set order then Some (rs ! i) else None) [0 ..< length rs]"
proof (induction order rule: rev_induct)
  case Nil
  show ?case by (rule nth_equalityI) simp_all
next
  case (snoc i order)
  let ?f = "\<lambda>vals i. if i < length rs then vals[i := Some (rs ! i)] else vals"
  let ?m = "\<lambda>ord. map (\<lambda>i. if i \<in> set ord then Some (rs ! i) else None) [0 ..< length rs]"
  have step: "foldl ?f (replicate (length rs) None) (order @ [i]) = ?f (?m order) i"
    by (simp add: snoc.IH)
  have "?f (?m order) i = ?m (order @ [i])"
  proof (cases "i < length rs")
    case True
    then show ?thesis
      by (intro nth_equalityI) (simp_all add: nth_list_update)
  next
    case False
    then show ?thesis
      by (intro nth_equalityI) auto
  qed
  with step show ?case by simp
qed

lemma promise_all_value: "promise_all rs order = Some rs' \<Longrightarrow> rs' = rs"
proof -
  assume "promise_all rs order = Some rs'"
  then have "those (map (\<lambda>i. if i \<in> set order then Some (rs ! i) else None) [0 ..< length rs]) = Some rs'"
    unfolding promise_all_def settle_fold .
  then have eq: "map (\<lambda>i. if i \<in> set order then Some (rs ! i) else None) [0 ..< length rs] = map Some rs'"
    unfolding those_eq_Some .
  from arg_cong[OF this, of length] have len: "length rs' = length rs"
    by simp
  have "rs' ! i = rs ! i" if "i < length rs" for i
  proof -
    from arg_cong[OF eq, of "\<lambda>xs. xs ! i"] show ?thesis
      using that len by (simp split: if_splits)
  qed
  then show ?thesis using len by (intro nth_equalityI) simp_all
qed

lemma promise_all_complete:
  assumes "set [0 ..< length rs] \<subseteq> set order"
  shows "promise_all rs order = Some rs"
proof -
  have "\<forall>i < length rs. i \<in> set order" using assms by auto
  then have "map (\<lambda>i. if i \<in> set order then Some (rs ! i) else None) [0 ..< length rs] = map Some rs"
    by (intro nth_equalityI) simp_all
  then show ?thesis unfolding promise_all_def settle_fold those_eq_Some .
qed

section \<open>Facts about the stock price handler\<close>

lemma cors_response:
  "set_cors_headers new_response = \<lparr>headers = cors_headers, statusCode = 200, body = None\<rparr>"
  by (simp add: set_cors_headers_def new_response_def setHeader_def cors_headers_def)

lemma spread_js_and_exchange:
  "spread (js_and ex (JObj [(''exchange'', ex)])) = (if truthy ex then [(''exchange'', ex)] else [])"
  by (cases ex rule: truthy.cases) (simp_all add: js_and_def)

lemma stock_result_cases:
  "fst (stock_result up apiKey c) =
     (case fst (fetchStockPrice up (ticker c) apiKey) of
        Inr stockData \<Rightarrow>
          JObj ([(''ticker'', JStr (ticker c)), (''companyName'', JStr (name c)),
                 (''price'', get_prop stockData ''price'')]
                @ (if truthy (get_prop stockData ''exchange'')
                   then [(''exchange'', get_prop stockData ''exchange'')] else [])
                @ [(''success'', JBool True)])
      | Inl msg \<Rightarrow>
          JObj [(''ticker'', JStr (ticker c)), (''companyName'', JStr (name c)),
                (''price'', JNull), (''error'', JStr msg), (''success'', JBool False)])"
  by (simp add: stock_result_def spread_js_and_exchange split: prod.splits sum.splits)

lemma stock_result_success:
  "get_prop (fst (stock_result up apiKey c)) ''success'' = JBool (\<not> fetch_fails up apiKey c)"
  by (simp add: stock_result_cases fetch_fails_def split: sum.splits)

lemma stock_result_ticker:
  "get_prop (fst (stock_result up apiKey c)) ''ticker'' = JStr (ticker c)"
  by (simp add: stock_result_cases split: sum.splits)

lemma stock_result_calls:
  "snd (stock_result up apiKey c) =
     [api_request (''https://api.api-ninjas.com/v1/stockprice?ticker='' @ ticker c) apiKey]"
  by (simp add: stock_result_def fetchStockPrice_def Let_def split: prod.splits sum.splits)

lemma length_COMPETITORS: "length COMPETITORS = 5"
  by (simp add: COMPETITORS_def)

lemma tickers_COMPETITORS:
  "map (\<lambda>c. JStr (ticker c)) COMPETITORS = map JStr [''AAPL'', ''MSFT'', ''GOOGL'', ''META'', ''AMZN'']"
  by (simp add: COMPETITORS_def)

lemma stocks_handler_get:
  assumes "req_method req = ''GET''" and "API_KEY rt = Some apiKey" and "apiKey \<noteq> []"
    and "promise_all (map (\<lambda>c. fst (stock_result up apiKey c)) COMPETITORS) order = Some rs"
  shows "fst (stocks_handler req rt up order) =
           Some (if filter (\<lambda>stock. truthy (get_prop stock ''success'')) rs = []
                 then \<lparr>headers = cors_headers, statusCode = 503,
                        body = Some (JObj [(''error'', JStr ''Service unavailable''),
                                 (''message'', JStr ''Unable to fetch any stock data at this time. Please try again later.''),
                                 (''details'', JArr rs)])\<rparr>
                 else \<lparr>headers = cors_headers, statusCode = 200,
                        body = Some (JObj [(''timestamp'', JStr (now_iso rt)),
                                 (''dataPoints'', js_length rs),
                                 (''successfulFetches'',
                                    js_length (filter (\<lambda>stock. truthy (get_prop stock ''success'')) rs)),
                                 (''stocks'', JArr rs)])\<rparr>)"
  using assms
  by (simp add: stocks_handler_def cors_response status_json_def Let_def comp_def)

lemma stocks_handler_responds:
  assumes "req_method req = ''GET''" and "fst (stocks_handler req rt up order) = Some res"
    and "statusCode res \<noteq> 500"
  obtains apiKey where "API_KEY rt = Some apiKey" and "apiKey \<noteq> []"
    and "promise_all (map (\<lambda>c. fst (stock_result up apiKey c)) COMPETITORS) order
           = Some (map (\<lambda>c. fst (stock_result up apiKey c)) COMPETITORS)"
proof (cases "API_KEY rt")
  case None
  with assms show ?thesis
    by (auto simp: stocks_handler_def status_json_def cors_response)
next
  case (Some apiKey)
  show ?thesis
  proof (cases "apiKey = []")
    case True
    with Some assms show ?thesis
      by (auto simp: stocks_handler_def status_json_def cors_response)
  next
    case False
    let ?rs = "map (\<lambda>c. fst (stock_result up apiKey c)) COMPETITORS"
    from Some False assms obtain rs' where p: "promise_all ?rs order = Some rs'"
      by (cases "promise_all ?rs order") (simp_all add: stocks_handler_def Let_def comp_def)
    then have "rs' = ?rs" by (rule promise_all_value)
    with p Some False that show ?thesis by simp
  qed
qed

lemma filter_success_fails:
  "filter (\<lambda>stock. truthy (get_prop stock ''success'')) (map (\<lambda>c. fst (stock_result up apiKey c)) cs)
     = map (\<lambda>c. fst (stock_result up apiKey c)) (filter (\<lambda>c. \<not> fetch_fails up apiKey c) cs)"
  by (induction cs) (simp_all add: stock_result_success)

lemma filter_failed_fails:
  "filter (\<lambda>r. get_prop r ''success'' = JBool False) (map (\<lambda>c. fst (stock_result up apiKey c)) cs)
     = map (\<lambda>c. fst (stock_result up apiKey c)) (filter (fetch_fails up apiKey) cs)"
  by (induction cs) (simp_all add: stock_result_success)

lemma count_successes:
  "length (filter (\<lambda>c. \<not> fetch_fails up apiKey c) COMPETITORS)
     = 5 - length (filter (fetch_fails up apiKey) COMPETITORS)"
  using sum_length_filter_compl[of "fetch_fails up apiKey" COMPETITORS]
  by (simp add: length_COMPETITORS)

section \<open>Facts about the transcript handler\<close>

lemma transcript_handler_get:
  "req_method req = ''GET'' \<Longrightarrow>
   transcript_handler req rt up =
     (case transcript_try req rt up \<lparr>headers = cors_headers, statusCode = 200, body = None\<rparr> of
        (Inr response, calls) \<Rightarrow> (response, calls)
      | (Inl msg, calls) \<Rightarrow>
          (transcript_catch rt msg \<lparr>headers = cors_headers, statusCode = 200, body = None\<rparr>, calls))"
  by (simp add: transcript_handler_def cors_response Let_def)

lemma env_truthy_iff: "env_truthy k \<longleftrightarrow> (\<exists>s. k = Some s \<and> s \<noteq> [])"
  by (cases k) simp_all

lemma fetchEarningsTranscript_calls:
  "snd (fetchEarningsTranscript up t y q apiKey) = [api_request (transcript_url t y q) apiKey]"
  by (simp add: fetchEarningsTranscript_def transcript_url_def Let_def)

lemma startsWith_append: "startsWith (p @ s) p"
  by (induction p) simp_all

lemma transcript_try_ticker_checked:
  assumes "API_KEY rt = Some apiKey" and "apiKey \<noteq> []"
    and "query req ''ticker'' = Some (QStr t)" and "t \<noteq> []"
    and "q_truthy (query req ''year'')" and "q_truthy (query req ''quarter'')"
  shows "transcript_try req rt up res =
    (let tickerUpper = trim (toUpperCase (unicode_upper rt) t);
         yearNum = parseInt (q_to_string (query req ''year''));
         quarterNum = parseInt (q_to_string (query req ''quarter''))
     in if \<not> ticker_regex_test tickerUpper
        then (Inr (status_json 400 (bad_request ''Invalid parameter'' ''Ticker must be 1-5 letters'') res), [])
        else if out_of_range yearNum 2000 2030
        then (Inr (status_json 400 (bad_request ''Invalid parameter'' ''Year must be between 2000 and 2030'') res), [])
        else if out_of_range quarterNum 1 4
        then (Inr (status_json 400 (bad_request ''Invalid parameter'' ''Quarter must be between 1 and 4'') res), [])
        else (case fetchEarningsTranscript up tickerUpper
                     (number_toString yearNum) (number_toString quarterNum) apiKey of
                (Inl msg, calls) \<Rightarrow> (Inl msg, calls)
              | (Inr transcriptData, calls) \<Rightarrow>
                  (Inr (status_json 200
                          (JObj (set_prop ''fetchedAt'' (JStr (now_iso rt))
                                   (spread transcriptData))) res),
                   calls)))"
  using assms by (simp add: transcript_try_def)

lemma transcript_calls_valid:
  assumes "req_method req = ''GET''" and "API_KEY rt = Some apiKey" and "apiKey \<noteq> []"
    and "query req ''ticker'' = Some (QStr t)"
    and "ticker_regex_test (trim (toUpperCase (unicode_upper rt) t))"
    and "q_truthy (query req ''year'')" and "q_truthy (query req ''quarter'')"
    and "parseInt (q_to_string (query req ''year'')) = Some y" and "2000 \<le> y" and "y \<le> 2030"
    and "parseInt (q_to_string (query req ''quarter'')) = Some q" and "1 \<le> q" and "q \<le> 4"
  shows "snd (transcript_handler req rt up)
           = [api_request (transcript_url (trim (toUpperCase (unicode_upper rt) t)) (show_int y) (show_int q)) apiKey]"
proof -
  have "t \<noteq> []"
    using assms(5) by (auto simp: ticker_regex_test_def trim_def toUpperCase_def)
  note tr = transcript_try_ticker_checked[OF assms(2-4) this assms(6,7)]
  obtain r calls where f: "fetchEarningsTranscript up (trim (toUpperCase (unicode_upper rt) t)) (show_int y) (show_int q) apiKey = (r, calls)"
    by (cases "fetchEarningsTranscript up (trim (toUpperCase (unicode_upper rt) t)) (show_int y) (show_int q) apiKey")
  with fetchEarningsTranscript_calls[of up "trim (toUpperCase (unicode_upper rt) t)" "show_int y" "show_int q" apiKey]
  have c: "calls = [api_request (transcript_url (trim (toUpperCase (unicode_upper rt) t)) (show_int y) (show_int q)) apiKey]"
    by simp
  show ?thesis
    using assms f c
    by (cases r) (simp_all add: transcript_handler_get tr out_of_range_def number_toString_def)
qed

text \<open>
  White space beyond ASCII is stripped as well: with an upper-case table that leaves white
  space alone, a no-break space (U+00A0) or a line separator (U+2028) around the ticker, or a
  no-break space before the year, does not change what is accepted.
\<close>

lemma unicode_white_space_stripped:
  "trim (toUpperCase example_unicode_upper
           ([CHR 0xC2, CHR 0xA0] @ ''msft'' @ [CHR 0xE2, CHR 0x80, CHR 0xA8])) = ''MSFT''"
  "parseInt ([CHR 0xC2, CHR 0xA0] @ ''2024'') = Some 2024"
  by code_simp+

lemma concat_code_points: "concat (code_points s) = s"
  by (induction s rule: code_points.induct) simp_all

subsection \<open>The message for an upstream 404 never contains the text the handler looks for\<close>

lemma startsWith_skip: "x \<notin> set sub \<Longrightarrow> startsWith (a @ x # b) sub = startsWith a sub"
proof (induction a arbitrary: sub)
  case Nil
  then show ?case by (cases sub) auto
next
  case (Cons c a)
  then show ?case by (cases sub) auto
qed

lemma str_includes_split:
  "x \<notin> set sub \<Longrightarrow> str_includes (a @ x # b) sub \<longleftrightarrow> str_includes a sub \<or> str_includes b sub"
proof (induction a)
  case Nil
  then show ?case using startsWith_skip[of x sub "[]" b] by (cases sub) auto
next
  case (Cons c a)
  then show ?case using startsWith_skip[of x sub "c # a" b] by auto
qed

lemma str_includes_gap:
  assumes "v \<noteq> []" and "set v \<inter> set sub = {}" and "sub \<noteq> []"
  shows "str_includes (a @ v @ b) sub \<longleftrightarrow> str_includes a sub \<or> str_includes b sub"
  using assms
proof (induction v arbitrary: a)
  case Nil
  then show ?case by simp
next
  case (Cons x v)
  then have x: "x \<notin> set sub" by auto
  show ?case
  proof (cases "v = []")
    case True
    with x show ?thesis by (simp add: str_includes_split)
  next
    case False
    with Cons have "str_includes ([] @ v @ b) sub \<longleftrightarrow> str_includes [] sub \<or> str_includes b sub"
      by (intro Cons.IH) auto
    with Cons.prems(3) have "str_includes (v @ b) sub \<longleftrightarrow> str_includes b sub" by simp
    with x show ?thesis by (simp add: str_includes_split)
  qed
qed

lemma show_nat_digits: "show_nat n \<noteq> [] \<and> set (show_nat n) \<subseteq> set ''0123456789''"
proof (induction n rule: show_nat.induct)
  case (1 n)
  have d: "digit_char k \<in> set ''0123456789''" if "k < 10" for k
    unfolding digit_char_def using that by (intro nth_mem) simp
  show ?case
  proof (cases "n < 10")
    case True
    with d[of n] show ?thesis by (subst (1 2) show_nat.simps) simp
  next
    case False
    with 1 d[of "n mod 10"] show ?thesis by (subst (1 2) show_nat.simps) auto
  qed
qed

lemma upper_not_in_pattern: "is_upper_letter c \<Longrightarrow> c \<notin> set ''not found''"
  by (auto simp: is_upper_letter_def)

lemma digit_not_in_pattern: "c \<in> set ''0123456789'' \<Longrightarrow> c \<notin> set ''not found''"
  by auto

lemma fixed_parts_without_pattern:
  "\<not> str_includes ''No transcript found for '' ''not found''"
  "\<not> str_includes '' '' ''not found''"
  "\<not> str_includes '' Q'' ''not found''"
  "\<not> str_includes ''. The earnings call may not be available yet or the parameters may be incorrect.'' ''not found''"
  by code_simp+

lemma show_int_no_pattern:
  assumes "0 \<le> i"
  shows "show_int i \<noteq> []" and "set (show_int i) \<inter> set ''not found'' = {}"
proof -
  from assms have s: "show_int i = show_nat (nat i)" by (simp add: show_int_def)
  from show_nat_digits[of "nat i"] show "show_int i \<noteq> []" unfolding s by blast
  have "\<forall>c \<in> set (show_nat (nat i)). c \<notin> set ''not found''"
    using show_nat_digits[of "nat i"] digit_not_in_pattern by blast
  then show "set (show_int i) \<inter> set ''not found'' = {}" unfolding s by blast
qed

lemma ticker_no_pattern:
  assumes "ticker_regex_test t"
  shows "t \<noteq> []" and "set t \<inter> set ''not found'' = {}"
proof -
  from assms show "t \<noteq> []" unfolding ticker_regex_test_def by auto
  from assms have "\<forall>c \<in> set t. is_upper_letter c"
    unfolding ticker_regex_test_def list_all_iff by blast
  then have "\<forall>c \<in> set t. c \<notin> set ''not found''"
    using upper_not_in_pattern by blast
  then show "set t \<inter> set ''not found'' = {}" by blast
qed

lemma not_found_message_500:
  assumes "ticker_regex_test t" and "0 \<le> y" and "0 \<le> q"
  shows "\<not> str_includes (''No transcript found for '' @ t @ '' '' @ show_int y @ '' Q'' @ show_int q
            @ ''. The earnings call may not be available yet or the parameters may be incorrect.'')
          ''not found''"
proof -
  let ?p = "''not found''"
  let ?D = "''. The earnings call may not be available yet or the parameters may be incorrect.''"
  have p: "?p \<noteq> []" by simp
  note t = ticker_no_pattern[OF assms(1)]
  note sy = show_int_no_pattern[OF assms(2)]
  note sq = show_int_no_pattern[OF assms(3)]
  note fx = fixed_parts_without_pattern
  have 1: "\<not> str_includes ('' Q'' @ show_int q @ ?D) ?p"
    unfolding str_includes_gap[OF sq p] using fx by blast
  have 2: "\<not> str_includes ('' '' @ show_int y @ ('' Q'' @ show_int q @ ?D)) ?p"
    unfolding str_includes_gap[OF sy p] using fx 1 by blast
  have 3: "\<not> str_includes (''No transcript found for '' @ t @ ('' '' @ show_int y @ ('' Q'' @ show_int q @ ?D))) ?p"
    unfolding str_includes_gap[OF t p] using fx 2 by blast
  then show ?thesis .
qed

lemma upstream_404_always_500:
  assumes "req_method req = ''GET''" and "API_KEY rt = Some apiKey" and "apiKey \<noteq> []"
    and "query req ''ticker'' = Some (QStr t)"
    and "ticker_regex_test (trim (toUpperCase (unicode_upper rt) t))"
    and "q_truthy (query req ''year'')" and "q_truthy (query req ''quarter'')"
    and "parseInt (q_to_string (query req ''year'')) = Some y" and "2000 \<le> y" and "y \<le> 2030"
    and "parseInt (q_to_string (query req ''quarter'')) = Some q" and "1 \<le> q" and "q \<le> 4"
    and "up (api_request (transcript_url (trim (toUpperCase (unicode_upper rt) t)) (show_int y) (show_int q)) apiKey)
           = Responds 404 stText b"
  shows "statusCode (fst (transcript_handler req rt up)) = 500"
proof -
  have "t \<noteq> []"
    using assms(5) by (auto simp: ticker_regex_test_def trim_def toUpperCase_def)
  note tr = transcript_try_ticker_checked[OF assms(2-4) this assms(6,7)]
  have m: "\<not> str_includes (''No transcript found for '' @ trim (toUpperCase (unicode_upper rt) t) @ '' '' @ show_int y @ '' Q'' @ show_int q
            @ ''. The earnings call may not be available yet or the parameters may be incorrect.'')
          ''not found''"
    using assms by (intro not_found_message_500) simp_all
  have f: "fst (fetchEarningsTranscript up (trim (toUpperCase (unicode_upper rt) t)) (show_int y) (show_int q) apiKey)
         = Inl (''No transcript found for '' @ trim (toUpperCase (unicode_upper rt) t) @ '' '' @ show_int y @ '' Q'' @ show_int q
            @ ''. The earnings call may not be available yet or the parameters may be incorrect.'')"
    using assms(14)
    by (simp add: fetchEarningsTranscript_def transcript_url_def response_ok_def)
  obtain r calls where rc: "fetchEarningsTranscript up (trim (toUpperCase (unicode_upper rt) t)) (show_int y) (show_int q) apiKey = (r, calls)"
    by (cases "fetchEarningsTranscript up (trim (toUpperCase (unicode_upper rt) t)) (show_int y) (show_int q) apiKey")
  with f have "r = Inl (''No transcript found for '' @ trim (toUpperCase (unicode_upper rt) t) @ '' '' @ show_int y @ '' Q'' @ show_int q
            @ ''. The earnings call may not be available yet or the parameters may be incorrect.'')"
    by simp
  with rc m assms show ?thesis
    by (simp add: transcript_handler_get tr out_of_range_def number_toString_def
        transcript_catch_def status_json_def del: str_includes.simps startsWith.simps)
qed

section \<open>The claims\<close>

text \<open>
  Claim C1: in the transcript handler, an upstream 404 for a valid, in-range request is to be
  answered with HTTP 404 and kind \<^verbatim>\<open>Not found\<close>, the status being chosen by whether the
  error message contains \<^verbatim>\<open>not found\<close>. The substring test is what the handler does, but
  the message that \<^verbatim>\<open>fetchEarningsTranscript\<close> builds for a 404 reads
  \<^verbatim>\<open>No transcript found for ...\<close> and does not contain \<^verbatim>\<open>not found\<close>: run on
  ticker MSFT, year 2024, quarter 1 against an upstream that answers 404, the handler responds
  500 with kind \<^verbatim>\<open>Internal server error\<close>. The lemma \<open>upstream_404_always_500\<close> above
  shows the same status for every valid request.
\<close>

theorem upstream_404_answered_500:
  "transcript_handler (transcript_request ''MSFT'' ''2024'' ''1'') example_runtime upstream_404 =
     (\<lparr>headers = cors_headers, statusCode = 500,
       body = Some (JObj [(''error'', JStr ''Internal server error''),
                          (''message'', JStr ''No transcript found for MSFT 2024 Q1. The earnings call may not be available yet or the parameters may be incorrect.''),
                          (''details'', JUndefined)])\<rparr>,
      [api_request ''https://api.api-ninjas.com/v1/earningstranscript?ticker=MSFT&year=2024&quarter=1'' ''secret''])
   \<and> upstream_404 (api_request ''https://api.api-ninjas.com/v1/earningstranscript?ticker=MSFT&year=2024&quarter=1'' ''secret'')
       = Responds 404 ''Not Found'' (JsonValue JNull)
   \<and> \<not> str_includes ''No transcript found for MSFT 2024 Q1. The earnings call may not be available yet or the parameters may be incorrect.'' ''not found''"
proof -
  have 1: "transcript_handler (transcript_request ''MSFT'' ''2024'' ''1'') example_runtime upstream_404 =
     (\<lparr>headers = cors_headers, statusCode = 500,
       body = Some (JObj [(''error'', JStr ''Internal server error''),
                          (''message'', JStr ''No transcript found for MSFT 2024 Q1. The earnings call may not be available yet or the parameters may be incorrect.''),
                          (''details'', JUndefined)])\<rparr>,
      [api_request ''https://api.api-ninjas.com/v1/earningstranscript?ticker=MSFT&year=2024&quarter=1'' ''secret''])"
    by code_simp
  have 2: "\<not> str_includes ''No transcript found for MSFT 2024 Q1. The earnings call may not be available yet or the parameters may be incorrect.'' ''not found''"
    by code_simp
  from 1 2 show ?thesis by (simp add: upstream_404_def)
qed

text \<open>
  Claim C2: whenever the price handler answers a GET request with HTTP 200, the \<^verbatim>\<open>stocks\<close>
  array of the response has exactly five entries and their tickers are AAPL, MSFT, GOOGL,
  META, AMZN in this order, the order of \<^verbatim>\<open>COMPETITORS\<close>, whatever the upstream did for
  each ticker and in whatever order the five fetches completed. (An \<^verbatim>\<open>OPTIONS\<close> request
  is answered 200 as well, with no body and without any fetch; it is not what the claim is
  about.)
\<close>

theorem stocks_order_preserved:
  assumes "req_method req = ''GET''"
    and "fst (stocks_handler req rt up order) = Some res"
    and "statusCode res = 200"
  shows "\<exists>b rs. body res = Some b \<and> get_prop b ''stocks'' = JArr rs \<and> length rs = 5
           \<and> map (\<lambda>r. get_prop r ''ticker'') rs = map (\<lambda>c. JStr (ticker c)) COMPETITORS
           \<and> map (\<lambda>r. get_prop r ''ticker'') rs
               = map JStr [''AAPL'', ''MSFT'', ''GOOGL'', ''META'', ''AMZN'']"
proof -
  from assms obtain apiKey where k: "API_KEY rt = Some apiKey" "apiKey \<noteq> []"
    and p: "promise_all (map (\<lambda>c. fst (stock_result up apiKey c)) COMPETITORS) order
           = Some (map (\<lambda>c. fst (stock_result up apiKey c)) COMPETITORS)"
    by (auto elim: stocks_handler_responds)
  let ?rs = "map (\<lambda>c. fst (stock_result up apiKey c)) COMPETITORS"
  from stocks_handler_get[OF assms(1) k p] assms(2,3)
  have b: "body res = Some (JObj [(''timestamp'', JStr (now_iso rt)),
                                 (''dataPoints'', js_length ?rs),
                                 (''successfulFetches'',
                                    js_length (filter (\<lambda>stock. truthy (get_prop stock ''success'')) ?rs)),
                                 (''stocks'', JArr ?rs)])"
    by (auto split: if_splits)
  have t: "map (\<lambda>r. get_prop r ''ticker'') ?rs = map (\<lambda>c. JStr (ticker c)) COMPETITORS"
    by (simp add: stock_result_ticker comp_def)
  have "length ?rs = 5" by (simp add: length_COMPETITORS)
  with b t tickers_COMPETITORS show ?thesis by simp
qed

theorem stocks_order_preserved_witness:
  "\<exists>res b rs. fst (stocks_handler (stocks_request ''GET'') example_runtime upstream_only_msft [4, 2, 0, 1, 3]) = Some res
      \<and> statusCode res = 200 \<and> body res = Some b \<and> get_prop b ''stocks'' = JArr rs \<and> length rs = 5
      \<and> map (\<lambda>r. get_prop r ''ticker'') rs = map JStr [''AAPL'', ''MSFT'', ''GOOGL'', ''META'', ''AMZN'']"
proof -
  let ?out = "fst (stocks_handler (stocks_request ''GET'') example_runtime upstream_only_msft [4, 2, 0, 1, 3])"
  have m: "req_method (stocks_request ''GET'') = ''GET''"
    by (simp add: stocks_request_def)
  have r: "?out = Some (the ?out)"
    by code_simp
  have s: "statusCode (the ?out) = 200"
    by code_simp
  from stocks_order_preserved[OF m r s] r s show ?thesis
    by blast
qed

text \<open>
  Claim C3: for a GET request with the API key configured and all five fetches settling, the
  price handler responds, and it responds 503 exactly when all five fetches fail. When the
  number \<open>k\<close> of failed fetches is below five (in particular for \<open>1 \<le> k < 5\<close>) the response
  is 200, \<^verbatim>\<open>successfulFetches\<close> is \<open>5 - k\<close>, and the entries with \<^verbatim>\<open>success: false\<close>
  are exactly those of the \<open>k\<close> failed fetches.
\<close>

theorem stocks_partial_failure:
  assumes "req_method req = ''GET''" and "API_KEY rt = Some apiKey" and "apiKey \<noteq> []"
    and "set [0 ..< 5] \<subseteq> set order"
  shows "\<exists>res. fst (stocks_handler req rt up order) = Some res \<and>
           (statusCode res = 503 \<longleftrightarrow> list_all (fetch_fails up apiKey) COMPETITORS) \<and>
           (let k = length (filter (fetch_fails up apiKey) COMPETITORS)
            in k < 5 \<longrightarrow>
                 statusCode res = 200 \<and>
                 (\<exists>rs. body res =
                         Some (JObj [(''timestamp'', JStr (now_iso rt)),
                                     (''dataPoints'', JNum (Finite 5)),
                                     (''successfulFetches'', JNum (Finite (of_nat (5 - k)))),
                                     (''stocks'', JArr rs)]) \<and>
                       length rs = 5 \<and>
                       (\<forall>i < 5. get_prop (rs ! i) ''success''
                                   = JBool (\<not> fetch_fails up apiKey (COMPETITORS ! i))) \<and>
                       length (filter (\<lambda>r. get_prop r ''success'' = JBool False) rs) = k))"
proof -
  let ?rs = "map (\<lambda>c. fst (stock_result up apiKey c)) COMPETITORS"
  let ?ok = "filter (\<lambda>stock. truthy (get_prop stock ''success'')) ?rs"
  let ?k = "length (filter (fetch_fails up apiKey) COMPETITORS)"
  have "promise_all ?rs order = Some ?rs"
    using assms(4) by (intro promise_all_complete) (simp add: length_COMPETITORS)
  note h = stocks_handler_get[OF assms(1-3) this]
  have ok: "length ?ok = 5 - ?k"
    by (simp add: filter_success_fails count_successes)
  have kle: "?k \<le> 5"
    using length_filter_le[of "fetch_fails up apiKey" COMPETITORS] by (simp add: length_COMPETITORS)
  have all: "list_all (fetch_fails up apiKey) COMPETITORS \<longleftrightarrow> ?k = 5"
    using length_COMPETITORS filter_id_conv[of "fetch_fails up apiKey" COMPETITORS]
      length_filter_less[of _ COMPETITORS "fetch_fails up apiKey"]
    by (metis list_all_iff nat_neq_iff)
  have empty: "?ok = [] \<longleftrightarrow> ?k = 5"
    using ok kle by (metis length_0_conv diff_is_0_eq le_antisym diff_self_eq_0)
  have succ: "\<forall>i < 5. get_prop (?rs ! i) ''success'' = JBool (\<not> fetch_fails up apiKey (COMPETITORS ! i))"
    by (simp add: length_COMPETITORS stock_result_success)
  have failed: "length (filter (\<lambda>r. get_prop r ''success'' = JBool False) ?rs) = ?k"
    by (simp add: filter_failed_fails)
  show ?thesis
  proof (cases "?k = 5")
    case True
    with h empty all show ?thesis by (simp add: Let_def)
  next
    case False
    with kle have lt: "?k < 5" by simp
    have "fst (stocks_handler req rt up order) =
            Some \<lparr>headers = cors_headers, statusCode = 200,
                  body = Some (JObj [(''timestamp'', JStr (now_iso rt)),
                                 (''dataPoints'', JNum (Finite 5)),
                                 (''successfulFetches'', JNum (Finite (of_nat (5 - ?k)))),
                                 (''stocks'', JArr ?rs)])\<rparr>"
      using h empty False ok by (simp add: js_length_def length_COMPETITORS)
    moreover have "length ?rs = 5" by (simp add: length_COMPETITORS)
    ultimately show ?thesis
      using all False succ failed by (auto simp: Let_def)
  qed
qed

theorem stocks_partial_failure_witness:
  "\<exists>res rs. fst (stocks_handler (stocks_request ''GET'') example_runtime upstream_only_msft [4, 2, 0, 1, 3]) = Some res
      \<and> statusCode res = 200
      \<and> body res = Some (JObj [(''timestamp'', JStr ''2025-11-10T12:00:00.000Z''),
                                (''dataPoints'', JNum (Finite 5)),
                                (''successfulFetches'', JNum (Finite 1)),
                                (''stocks'', JArr rs)])
      \<and> map (\<lambda>r. get_prop r ''success'') rs
           = [JBool False, JBool True, JBool False, JBool False, JBool False]"
proof -
  have m: "req_method (stocks_request ''GET'') = ''GET''"
    by (simp add: stocks_request_def)
  have a: "API_KEY example_runtime = Some ''secret''"
    by (simp add: example_runtime_def)
  have o: "set [0 ..< 5] \<subseteq> set [4, 2, 0, 1, 3::nat]"
    by code_simp
  have k: "length (filter (fetch_fails upstream_only_msft ''secret'') COMPETITORS) = 4"
    by code_simp
  have f: "map (\<lambda>i. JBool (\<not> fetch_fails upstream_only_msft ''secret'' (COMPETITORS ! i))) [0 ..< 5]
             = [JBool False, JBool True, JBool False, JBool False, JBool False]"
    by code_simp
  have n: "now_iso example_runtime = ''2025-11-10T12:00:00.000Z''"
    by (simp add: example_runtime_def)
  from stocks_partial_failure[OF m a _ o, of upstream_only_msft]
  obtain res rs where h:
    "fst (stocks_handler (stocks_request ''GET'') example_runtime upstream_only_msft [4, 2, 0, 1, 3]) = Some res"
    "statusCode res = 200"
    "body res = Some (JObj [(''timestamp'', JStr ''2025-11-10T12:00:00.000Z''),
                                (''dataPoints'', JNum (Finite 5)),
                                (''successfulFetches'', JNum (Finite 1)),
                                (''stocks'', JArr rs)])"
    "length rs = 5"
    "\<forall>i < 5. get_prop (rs ! i) ''success'' = JBool (\<not> fetch_fails upstream_only_msft ''secret'' (COMPETITORS ! i))"
    unfolding k n by (auto simp: Let_def)
  from h(4,5) have g: "map (\<lambda>r. get_prop r ''success'') rs
       = map (\<lambda>i. JBool (\<not> fetch_fails upstream_only_msft ''secret'' (COMPETITORS ! i))) [0 ..< 5]"
    by (intro nth_equalityI) simp_all
  show ?thesis
    by (rule exI[of _ res], rule exI[of _ rs]) (simp only: h(1-3) g f simp_thms)
qed

text \<open>
  Claim C4, as stated: every StockResult with \<^verbatim>\<open>success == true\<close> has a finite number as
  \<^verbatim>\<open>price\<close>. The handler only checks that \<^verbatim>\<open>price\<close> is not \<^verbatim>\<open>undefined\<close>: for the
  upstream payload \<^verbatim>\<open>{"price": null}\<close> it builds a StockResult with \<^verbatim>\<open>success: true\<close>
  and \<^verbatim>\<open>price: null\<close>, and returns it in a 200 response.
\<close>

theorem null_price_counterexample:
  "fst (stock_result upstream_null_price ''secret'' \<lparr>ticker = ''AAPL'', name = ''Apple Inc.''\<rparr>)
     = JObj [(''ticker'', JStr ''AAPL''), (''companyName'', JStr ''Apple Inc.''),
             (''price'', JNull), (''success'', JBool True)]
   \<and> \<not> is_finite_number JNull
   \<and> fst (stocks_handler (stocks_request ''GET'') example_runtime upstream_null_price [0, 1, 2, 3, 4])
     = Some \<lparr>headers = cors_headers, statusCode = 200,
         body = Some (JObj
           [(''timestamp'', JStr ''2025-11-10T12:00:00.000Z''),
            (''dataPoints'', JNum (Finite 5)),
            (''successfulFetches'', JNum (Finite 5)),
            (''stocks'', JArr
               [JObj [(''ticker'', JStr ''AAPL''), (''companyName'', JStr ''Apple Inc.''),
                      (''price'', JNull), (''success'', JBool True)],
                JObj [(''ticker'', JStr ''MSFT''), (''companyName'', JStr ''Microsoft Corporation''),
                      (''price'', JNull), (''success'', JBool True)],
                JObj [(''ticker'', JStr ''GOOGL''), (''companyName'', JStr ''Alphabet Inc. (Google)''),
                      (''price'', JNull), (''success'', JBool True)],
                JObj [(''ticker'', JStr ''META''), (''companyName'', JStr ''Meta Platforms Inc.''),
                      (''price'', JNull), (''success'', JBool True)],
                JObj [(''ticker'', JStr ''AMZN''), (''companyName'', JStr ''Amazon.com Inc.''),
                      (''price'', JNull), (''success'', JBool True)]])])\<rparr>"
  by code_simp

text \<open>
  Claim C4, amended: every StockResult has \<^verbatim>\<open>success\<close> true or false. If it is true, then
  \<^verbatim>\<open>price\<close> is the \<^verbatim>\<open>price\<close> value of the upstream payload, which is not
  \<^verbatim>\<open>undefined\<close> (but need not be a number), and there is no \<^verbatim>\<open>error\<close> field. If it is
  false, then \<^verbatim>\<open>price\<close> is \<^verbatim>\<open>null\<close> and \<^verbatim>\<open>error\<close> is the message of the error
  caught, which is not empty provided that the message of an error thrown by the runtime's
  own \<^verbatim>\<open>fetch\<close> or \<^verbatim>\<open>json()\<close> is not empty.
\<close>

theorem stock_result_invariant:
  "(get_prop (fst (stock_result up apiKey c)) ''success'' = JBool True \<longrightarrow>
      (\<exists>data. fst (fetchStockPrice up (ticker c) apiKey) = Inr data
          \<and> get_prop (fst (stock_result up apiKey c)) ''price'' = get_prop data ''price'')
      \<and> get_prop (fst (stock_result up apiKey c)) ''price'' \<noteq> JUndefined
      \<and> \<not> has_prop (fst (stock_result up apiKey c)) ''error'')
   \<and> (get_prop (fst (stock_result up apiKey c)) ''success'' = JBool False \<longrightarrow>
      get_prop (fst (stock_result up apiKey c)) ''price'' = JNull
      \<and> (\<exists>m. get_prop (fst (stock_result up apiKey c)) ''error'' = JStr m
            \<and> fst (fetchStockPrice up (ticker c) apiKey) = Inl m
            \<and> (runtime_message_nonempty
                  (up (api_request (''https://api.api-ninjas.com/v1/stockprice?ticker='' @ ticker c) apiKey))
                \<longrightarrow> m \<noteq> [])))
   \<and> (get_prop (fst (stock_result up apiKey c)) ''success'' = JBool True
        \<or> get_prop (fst (stock_result up apiKey c)) ''success'' = JBool False)"
proof (cases "fst (fetchStockPrice up (ticker c) apiKey)")
  case (Inr data)
  then have "get_prop data ''price'' \<noteq> JUndefined"
    by (auto simp: fetchStockPrice_def Let_def
        split: fetch_outcome.splits json_outcome.splits if_splits)
  with Inr show ?thesis
    by (simp add: stock_result_cases)
next
  case (Inl m)
  then have "runtime_message_nonempty
               (up (api_request (''https://api.api-ninjas.com/v1/stockprice?ticker='' @ ticker c) apiKey))
             \<longrightarrow> m \<noteq> []"
    by (auto simp: fetchStockPrice_def Let_def
        split: fetch_outcome.splits json_outcome.splits if_splits)
  with Inl show ?thesis
    by (simp add: stock_result_cases)
qed

theorem stock_result_invariant_witness:
  "get_prop (fst (stock_result upstream_only_msft ''secret'' (COMPETITORS ! 1))) ''success'' = JBool True
   \<and> get_prop (fst (stock_result upstream_only_msft ''secret'' (COMPETITORS ! 1))) ''price'' = JNum (Finite 420)
   \<and> \<not> has_prop (fst (stock_result upstream_only_msft ''secret'' (COMPETITORS ! 1))) ''error''
   \<and> get_prop (fst (stock_result upstream_only_msft ''secret'' (COMPETITORS ! 0))) ''success'' = JBool False
   \<and> get_prop (fst (stock_result upstream_only_msft ''secret'' (COMPETITORS ! 0))) ''price'' = JNull
   \<and> get_prop (fst (stock_result upstream_only_msft ''secret'' (COMPETITORS ! 0))) ''error''
        = JStr ''API request failed for AAPL: 429 Too Many Requests''"
proof -
  have s1: "get_prop (fst (stock_result upstream_only_msft ''secret'' (COMPETITORS ! 1))) ''success'' = JBool True"
    by code_simp
  have f1: "fst (fetchStockPrice upstream_only_msft (ticker (COMPETITORS ! 1)) ''secret'')
             = Inr (JObj [(''ticker'', JStr ''MSFT''), (''price'', JNum (Finite 420)),
                          (''exchange'', JStr ''NASDAQ'')])"
    by code_simp
  have s0: "get_prop (fst (stock_result upstream_only_msft ''secret'' (COMPETITORS ! 0))) ''success'' = JBool False"
    by code_simp
  have f0: "fst (fetchStockPrice upstream_only_msft (ticker (COMPETITORS ! 0)) ''secret'')
             = Inl ''API request failed for AAPL: 429 Too Many Requests''"
    by code_simp
  from stock_result_invariant[of upstream_only_msft "''secret''" "COMPETITORS ! 1"] s1 f1
  have a: "get_prop (fst (stock_result upstream_only_msft ''secret'' (COMPETITORS ! 1))) ''price'' = JNum (Finite 420)
        \<and> \<not> has_prop (fst (stock_result upstream_only_msft ''secret'' (COMPETITORS ! 1))) ''error''"
    by simp
  from stock_result_invariant[of upstream_only_msft "''secret''" "COMPETITORS ! 0"] s0 f0
  have b: "get_prop (fst (stock_result upstream_only_msft ''secret'' (COMPETITORS ! 0))) ''price'' = JNull
        \<and> get_prop (fst (stock_result upstream_only_msft ''secret'' (COMPETITORS ! 0))) ''error''
        = JStr ''API request failed for AAPL: 429 Too Many Requests''"
    by auto
  from s1 a s0 b show ?thesis by (intro conjI) simp_all
qed

text \<open>
  Claim C5: a GET request served while \<^verbatim>\<open>API_KEY\<close> is unset or empty is answered by both
  handlers with HTTP 500 and the server configuration error, and no outbound request is
  issued.
\<close>

theorem missing_api_key:
  assumes "req_method req = ''GET''" and "\<not> env_truthy (API_KEY rt)"
  shows "transcript_handler req rt up =
           (\<lparr>headers = cors_headers, statusCode = 500,
             body = Some (JObj [(''error'', JStr ''Server configuration error''),
                                (''message'', JStr ''API authentication is not properly configured'')])\<rparr>,
            [])
       \<and> stocks_handler req rt up order =
           (Some \<lparr>headers = cors_headers, statusCode = 500,
             body = Some (JObj [(''error'', JStr ''Server configuration error''),
                                (''message'', JStr ''API authentication is not properly configured'')])\<rparr>,
            [])"
proof (cases "API_KEY rt")
  case None
  with assms(1) show ?thesis
    by (simp add: transcript_handler_get transcript_try_def stocks_handler_def cors_response
        status_json_def server_configuration_error_def)
next
  case (Some k)
  with assms(2) have "k = []" by simp
  with Some assms(1) show ?thesis
    by (simp add: transcript_handler_get transcript_try_def stocks_handler_def cors_response
        status_json_def server_configuration_error_def)
qed

theorem missing_api_key_witness:
  "transcript_handler (transcript_request ''MSFT'' ''2024'' ''1'') unconfigured_runtime upstream_only_msft =
           (\<lparr>headers = cors_headers, statusCode = 500,
             body = Some (JObj [(''error'', JStr ''Server configuration error''),
                                (''message'', JStr ''API authentication is not properly configured'')])\<rparr>,
            [])
       \<and> stocks_handler (transcript_request ''MSFT'' ''2024'' ''1'') unconfigured_runtime upstream_only_msft [0, 1, 2, 3, 4] =
           (Some \<lparr>headers = cors_headers, statusCode = 500,
             body = Some (JObj [(''error'', JStr ''Server configuration error''),
                                (''message'', JStr ''API authentication is not properly configured'')])\<rparr>,
            [])"
proof -
  have m: "req_method (transcript_request ''MSFT'' ''2024'' ''1'') = ''GET''"
    by (simp add: transcript_request_def)
  have k: "\<not> env_truthy (API_KEY unconfigured_runtime)"
    by (simp add: unconfigured_runtime_def)
  show ?thesis by (rule missing_api_key[OF m k])
qed

text \<open>
  Claim C6: the transcript handler checks the presence of \<^verbatim>\<open>ticker\<close>, \<^verbatim>\<open>year\<close> and
  \<^verbatim>\<open>quarter\<close> in this order. A missing (or empty) ticker gives 400 with the message
  \<^verbatim>\<open>Ticker symbol is required\<close>; a ticker without a year gives 400 with
  \<^verbatim>\<open>Year is required\<close>; ticker and year without a quarter give 400 with
  \<^verbatim>\<open>Quarter is required\<close>. No outbound request is issued in any of these cases.
\<close>

theorem transcript_missing_parameters:
  assumes "req_method req = ''GET''" and "env_truthy (API_KEY rt)"
  shows "(\<not> q_truthy (query req ''ticker'') \<longrightarrow>
            transcript_handler req rt up =
              (\<lparr>headers = cors_headers, statusCode = 400,
                body = Some (JObj [(''error'', JStr ''Missing parameter''),
                                   (''message'', JStr ''Ticker symbol is required'')])\<rparr>, []))
       \<and> (q_truthy (query req ''ticker'') \<and> \<not> q_truthy (query req ''year'') \<longrightarrow>
            transcript_handler req rt up =
              (\<lparr>headers = cors_headers, statusCode = 400,
                body = Some (JObj [(''error'', JStr ''Missing parameter''),
                                   (''message'', JStr ''Year is required'')])\<rparr>, []))
       \<and> (q_truthy (query req ''ticker'') \<and> q_truthy (query req ''year'')
            \<and> \<not> q_truthy (query req ''quarter'') \<longrightarrow>
            transcript_handler req rt up =
              (\<lparr>headers = cors_headers, statusCode = 400,
                body = Some (JObj [(''error'', JStr ''Missing parameter''),
                                   (''message'', JStr ''Quarter is required'')])\<rparr>, []))"
proof -
  from assms(2) obtain k where "API_KEY rt = Some k" "k \<noteq> []"
    by (auto simp: env_truthy_iff)
  with assms(1) show ?thesis
    by (simp add: transcript_handler_get transcript_try_def status_json_def bad_request_def)
qed

theorem transcript_missing_parameters_witness:
  "transcript_handler \<lparr>req_method = ''GET'', query = [''year'' \<mapsto> QStr ''2024'', ''quarter'' \<mapsto> QStr ''1'']\<rparr>
       example_runtime upstream_404 =
     (\<lparr>headers = cors_headers, statusCode = 400,
       body = Some (JObj [(''error'', JStr ''Missing parameter''),
                          (''message'', JStr ''Ticker symbol is required'')])\<rparr>, [])
   \<and> transcript_handler \<lparr>req_method = ''GET'', query = [''ticker'' \<mapsto> QStr ''MSFT'', ''quarter'' \<mapsto> QStr ''1'']\<rparr>
       example_runtime upstream_404 =
     (\<lparr>headers = cors_headers, statusCode = 400,
       body = Some (JObj [(''error'', JStr ''Missing parameter''),
                          (''message'', JStr ''Year is required'')])\<rparr>, [])
   \<and> transcript_handler \<lparr>req_method = ''GET'', query = [''ticker'' \<mapsto> QStr ''MSFT'', ''year'' \<mapsto> QStr ''2024'']\<rparr>
       example_runtime upstream_404 =
     (\<lparr>headers = cors_headers, statusCode = 400,
       body = Some (JObj [(''error'', JStr ''Missing parameter''),
                          (''message'', JStr ''Quarter is required'')])\<rparr>, [])"
proof -
  have k: "env_truthy (API_KEY example_runtime)"
    by (simp add: example_runtime_def)
  show ?thesis
    using transcript_missing_parameters[OF _ k,
            of "\<lparr>req_method = ''GET'', query = [''year'' \<mapsto> QStr ''2024'', ''quarter'' \<mapsto> QStr ''1'']\<rparr>" upstream_404]
          transcript_missing_parameters[OF _ k,
            of "\<lparr>req_method = ''GET'', query = [''ticker'' \<mapsto> QStr ''MSFT'', ''quarter'' \<mapsto> QStr ''1'']\<rparr>" upstream_404]
          transcript_missing_parameters[OF _ k,
            of "\<lparr>req_method = ''GET'', query = [''ticker'' \<mapsto> QStr ''MSFT'', ''year'' \<mapsto> QStr ''2024'']\<rparr>" upstream_404]
    by simp
qed

text \<open>
  Claim C7: with all three parameters present, the transcript handler answers 400 with
  \<^verbatim>\<open>Ticker must be 1-5 letters\<close> exactly when the ticker, uppercased and then trimmed, is
  not one to five capital letters; every outbound request carries the normalised ticker in
  its URL. This holds for every ticker string, ASCII or not, and for every upper-case table
  of the runtime. The input \<^verbatim>\<open>"msft "\<close> normalises to \<^verbatim>\<open>MSFT\<close>, which passes the
  test; \<^verbatim>\<open>"12AB"\<close> and \<^verbatim>\<open>"TOOLONG1"\<close> do not pass.
\<close>

theorem transcript_ticker_validation:
  assumes "req_method req = ''GET''" and "API_KEY rt = Some apiKey" and "apiKey \<noteq> []"
    and "query req ''ticker'' = Some (QStr t)" and "t \<noteq> []"
    and "q_truthy (query req ''year'')" and "q_truthy (query req ''quarter'')"
  shows "(transcript_handler req rt up =
            (\<lparr>headers = cors_headers, statusCode = 400,
              body = Some (JObj [(''error'', JStr ''Invalid parameter''),
                                 (''message'', JStr ''Ticker must be 1-5 letters'')])\<rparr>, [])
          \<longleftrightarrow> \<not> ticker_regex_test (trim (toUpperCase (unicode_upper rt) t)))
       \<and> (\<forall>rq \<in> set (snd (transcript_handler req rt up)).
             startsWith (url rq)
               (''https://api.api-ninjas.com/v1/earningstranscript?ticker='' @ trim (toUpperCase (unicode_upper rt) t) @ ''&year=''))
       \<and> trim (toUpperCase (unicode_upper rt) ''msft '') = ''MSFT'' \<and> ticker_regex_test ''MSFT''
       \<and> \<not> ticker_regex_test (trim (toUpperCase (unicode_upper rt) ''12AB''))
       \<and> \<not> ticker_regex_test (trim (toUpperCase (unicode_upper rt) ''TOOLONG1''))"
proof -
  note tr = transcript_try_ticker_checked[OF assms(2-7)]
  let ?T = "trim (toUpperCase (unicode_upper rt) t)"
  let ?Y = "number_toString (parseInt (q_to_string (query req ''year'')))"
  let ?Q = "number_toString (parseInt (q_to_string (query req ''quarter'')))"
  obtain r calls where f: "fetchEarningsTranscript up ?T ?Y ?Q apiKey = (r, calls)"
    by (cases "fetchEarningsTranscript up ?T ?Y ?Q apiKey")
  with fetchEarningsTranscript_calls[of up ?T ?Y ?Q apiKey]
  have c: "calls = [api_request (transcript_url ?T ?Y ?Q) apiKey]"
    by simp
  have u: "startsWith (transcript_url ?T ?Y ?Q)
             (''https://api.api-ninjas.com/v1/earningstranscript?ticker='' @ ?T @ ''&year='')"
    using startsWith_append[of "''https://api.api-ninjas.com/v1/earningstranscript?ticker='' @ ?T @ ''&year=''"
                               "?Y @ ''&quarter='' @ ?Q"]
    by (simp add: transcript_url_def)
  have 1: "transcript_handler req rt up =
            (\<lparr>headers = cors_headers, statusCode = 400,
              body = Some (JObj [(''error'', JStr ''Invalid parameter''),
                                 (''message'', JStr ''Ticker must be 1-5 letters'')])\<rparr>, [])
          \<longleftrightarrow> \<not> ticker_regex_test ?T"
    using assms(1) f
    by (cases r)
       (simp_all add: transcript_handler_get tr Let_def status_json_def bad_request_def
          transcript_catch_def)
  have 2: "\<forall>rq \<in> set (snd (transcript_handler req rt up)).
             startsWith (url rq)
               (''https://api.api-ninjas.com/v1/earningstranscript?ticker='' @ ?T @ ''&year='')"
    using assms(1) f c u
    by (cases r) (simp_all add: transcript_handler_get tr Let_def api_request_def)
  have 3: "trim (toUpperCase (unicode_upper rt) ''msft '') = ''MSFT''" by code_simp
  have 4: "ticker_regex_test ''MSFT''" by code_simp
  have 5: "\<not> ticker_regex_test (trim (toUpperCase (unicode_upper rt) ''12AB''))" by code_simp
  have 6: "\<not> ticker_regex_test (trim (toUpperCase (unicode_upper rt) ''TOOLONG1''))" by code_simp
  from 1 2 3 4 5 6 show ?thesis by (intro conjI)
qed

theorem transcript_ticker_validation_witness:
  "snd (transcript_handler (transcript_request ''msft '' ''2024'' ''1'') example_runtime upstream_404)
     = [api_request ''https://api.api-ninjas.com/v1/earningstranscript?ticker=MSFT&year=2024&quarter=1'' ''secret'']
   \<and> startsWith (url (api_request ''https://api.api-ninjas.com/v1/earningstranscript?ticker=MSFT&year=2024&quarter=1'' ''secret''))
         ''https://api.api-ninjas.com/v1/earningstranscript?ticker=MSFT&year=''
   \<and> transcript_handler (transcript_request ''12AB'' ''2024'' ''1'') example_runtime upstream_404 =
            (\<lparr>headers = cors_headers, statusCode = 400,
              body = Some (JObj [(''error'', JStr ''Invalid parameter''),
                                 (''message'', JStr ''Ticker must be 1-5 letters'')])\<rparr>, [])
   \<and> transcript_handler (transcript_request ''TOOLONG1'' ''2024'' ''1'') example_runtime upstream_404 =
            (\<lparr>headers = cors_headers, statusCode = 400,
              body = Some (JObj [(''error'', JStr ''Invalid parameter''),
                                 (''message'', JStr ''Ticker must be 1-5 letters'')])\<rparr>, [])
   \<and> snd (transcript_handler (transcript_request [CHR 0xC3, CHR 0x9F] ''2024'' ''1'')
            example_runtime upstream_404)
     = [api_request ''https://api.api-ninjas.com/v1/earningstranscript?ticker=SS&year=2024&quarter=1'' ''secret'']
   \<and> snd (transcript_handler (transcript_request (''msft'' @ [CHR 0xC2, CHR 0xA0]) ''2024'' ''1'')
            example_runtime upstream_404)
     = [api_request ''https://api.api-ninjas.com/v1/earningstranscript?ticker=MSFT&year=2024&quarter=1'' ''secret'']"
proof -
  have k: "API_KEY example_runtime = Some ''secret''"
    by (simp add: example_runtime_def)
  have u1: "snd (transcript_handler (transcript_request [CHR 0xC3, CHR 0x9F] ''2024'' ''1'')
            example_runtime upstream_404)
     = [api_request ''https://api.api-ninjas.com/v1/earningstranscript?ticker=SS&year=2024&quarter=1'' ''secret'']"
    by code_simp
  have u2: "snd (transcript_handler (transcript_request (''msft'' @ [CHR 0xC2, CHR 0xA0]) ''2024'' ''1'')
            example_runtime upstream_404)
     = [api_request ''https://api.api-ninjas.com/v1/earningstranscript?ticker=MSFT&year=2024&quarter=1'' ''secret'']"
    by code_simp
  have a: "snd (transcript_handler (transcript_request ''msft '' ''2024'' ''1'') example_runtime upstream_404)
     = [api_request ''https://api.api-ninjas.com/v1/earningstranscript?ticker=MSFT&year=2024&quarter=1'' ''secret'']"
    by code_simp
  have n: "trim (toUpperCase (unicode_upper example_runtime) ''msft '') = ''MSFT''" by code_simp
  have b: "\<not> ticker_regex_test (trim (toUpperCase (unicode_upper example_runtime) ''12AB''))" by code_simp
  have c: "\<not> ticker_regex_test (trim (toUpperCase (unicode_upper example_runtime) ''TOOLONG1''))" by code_simp
  have 1: "startsWith (url (api_request ''https://api.api-ninjas.com/v1/earningstranscript?ticker=MSFT&year=2024&quarter=1'' ''secret''))
         ''https://api.api-ninjas.com/v1/earningstranscript?ticker=MSFT&year=''"
  proof -
    have m: "req_method (transcript_request ''msft '' ''2024'' ''1'') = ''GET''"
      by (simp add: transcript_request_def)
    have t: "query (transcript_request ''msft '' ''2024'' ''1'') ''ticker'' = Some (QStr ''msft '')"
      by (simp add: transcript_request_def)
    have qy: "q_truthy (query (transcript_request ''msft '' ''2024'' ''1'') ''year'')"
      by (simp add: transcript_request_def)
    have qq: "q_truthy (query (transcript_request ''msft '' ''2024'' ''1'') ''quarter'')"
      by (simp add: transcript_request_def)
    have s1: "''secret'' \<noteq> []" by simp
    have s2: "''msft '' \<noteq> []" by simp
    note v = transcript_ticker_validation[OF m k s1 t s2 qy qq, of upstream_404]
    from v[THEN conjunct2, THEN conjunct1] show ?thesis unfolding a n by simp
  qed
  have 2: "transcript_handler (transcript_request ''12AB'' ''2024'' ''1'') example_runtime upstream_404 =
            (\<lparr>headers = cors_headers, statusCode = 400,
              body = Some (JObj [(''error'', JStr ''Invalid parameter''),
                                 (''message'', JStr ''Ticker must be 1-5 letters'')])\<rparr>, [])"
    using transcript_ticker_validation[OF _ k, of "transcript_request ''12AB'' ''2024'' ''1''" "''12AB''" upstream_404] b
    by (simp add: transcript_request_def)
  have 3: "transcript_handler (transcript_request ''TOOLONG1'' ''2024'' ''1'') example_runtime upstream_404 =
            (\<lparr>headers = cors_headers, statusCode = 400,
              body = Some (JObj [(''error'', JStr ''Invalid parameter''),
                                 (''message'', JStr ''Ticker must be 1-5 letters'')])\<rparr>, [])"
    using transcript_ticker_validation[OF _ k, of "transcript_request ''TOOLONG1'' ''2024'' ''1''" "''TOOLONG1''" upstream_404] c
    by (simp add: transcript_request_def)
  from a 1 2 3 u1 u2 show ?thesis by (intro conjI)
qed

text \<open>
  Claim C8, as stated: a successful fetch gives a StockResult that includes \<^verbatim>\<open>exchange\<close>
  whenever the upstream payload contains an \<^verbatim>\<open>exchange\<close> field. The handler copies the
  field through \<^verbatim>\<open>stockData.exchange && {...}\<close>, so a payload whose \<^verbatim>\<open>exchange\<close> is the
  empty string yields \<^verbatim>\<open>success: true\<close> without an \<^verbatim>\<open>exchange\<close> field.
\<close>

theorem empty_exchange_counterexample:
  "fst (fetchStockPrice upstream_empty_exchange ''AAPL'' ''secret'')
     = Inr (JObj [(''price'', JNum (Finite 189)), (''exchange'', JStr '''')])
   \<and> has_prop (JObj [(''price'', JNum (Finite 189)), (''exchange'', JStr '''')]) ''exchange''
   \<and> fst (stock_result upstream_empty_exchange ''secret'' \<lparr>ticker = ''AAPL'', name = ''Apple Inc.''\<rparr>)
     = JObj [(''ticker'', JStr ''AAPL''), (''companyName'', JStr ''Apple Inc.''),
             (''price'', JNum (Finite 189)), (''success'', JBool True)]
   \<and> \<not> has_prop (fst (stock_result upstream_empty_exchange ''secret''
                          \<lparr>ticker = ''AAPL'', name = ''Apple Inc.''\<rparr>)) ''exchange''
   \<and> fst (stocks_handler (stocks_request ''GET'') example_runtime upstream_empty_exchange [0, 1, 2, 3, 4])
     = Some \<lparr>headers = cors_headers, statusCode = 200,
         body = Some (JObj
           [(''timestamp'', JStr ''2025-11-10T12:00:00.000Z''),
            (''dataPoints'', JNum (Finite 5)),
            (''successfulFetches'', JNum (Finite 5)),
            (''stocks'', JArr
               [JObj [(''ticker'', JStr ''AAPL''), (''companyName'', JStr ''Apple Inc.''),
                      (''price'', JNum (Finite 189)), (''success'', JBool True)],
                JObj [(''ticker'', JStr ''MSFT''), (''companyName'', JStr ''Microsoft Corporation''),
                      (''price'', JNum (Finite 189)), (''success'', JBool True)],
                JObj [(''ticker'', JStr ''GOOGL''), (''companyName'', JStr ''Alphabet Inc. (Google)''),
                      (''price'', JNum (Finite 189)), (''success'', JBool True)],
                JObj [(''ticker'', JStr ''META''), (''companyName'', JStr ''Meta Platforms Inc.''),
                      (''price'', JNum (Finite 189)), (''success'', JBool True)],
                JObj [(''ticker'', JStr ''AMZN''), (''companyName'', JStr ''Amazon.com Inc.''),
                      (''price'', JNum (Finite 189)), (''success'', JBool True)]])])\<rparr>"
  by code_simp

text \<open>
  Claim C8, amended: for every successful fetch the StockResult has \<^verbatim>\<open>success: true\<close>, and
  it has an \<^verbatim>\<open>exchange\<close> field exactly when the \<^verbatim>\<open>exchange\<close> value of the upstream
  payload is truthy; the field then carries that value.
\<close>

theorem exchange_echoed_when_truthy:
  assumes "fst (fetchStockPrice up (ticker c) apiKey) = Inr data"
  shows "get_prop (fst (stock_result up apiKey c)) ''success'' = JBool True
       \<and> (has_prop (fst (stock_result up apiKey c)) ''exchange'' \<longleftrightarrow> truthy (get_prop data ''exchange''))
       \<and> (truthy (get_prop data ''exchange'') \<longrightarrow>
            get_prop (fst (stock_result up apiKey c)) ''exchange'' = get_prop data ''exchange'')"
  using assms by (simp add: stock_result_cases)

theorem exchange_echoed_when_truthy_witness:
  "get_prop (fst (stock_result upstream_only_msft ''secret'' (COMPETITORS ! 1))) ''success'' = JBool True
   \<and> has_prop (fst (stock_result upstream_only_msft ''secret'' (COMPETITORS ! 1))) ''exchange''
   \<and> get_prop (fst (stock_result upstream_only_msft ''secret'' (COMPETITORS ! 1))) ''exchange'' = JStr ''NASDAQ''"
proof -
  have f1: "fst (fetchStockPrice upstream_only_msft (ticker (COMPETITORS ! 1)) ''secret'')
             = Inr (JObj [(''ticker'', JStr ''MSFT''), (''price'', JNum (Finite 420)),
                          (''exchange'', JStr ''NASDAQ'')])"
    by code_simp
  from exchange_echoed_when_truthy[OF f1] show ?thesis by simp
qed

text \<open>
  Claim C9: year and quarter are validated through \<^verbatim>\<open>parseInt\<close>. Whenever the integer
  prefix of the year lies in 2000..2030 and that of the quarter in 1..4 (and the ticker is
  valid), the handler issues exactly one outbound request, whose URL carries the parsed
  integers and not the raw strings. In particular \<^verbatim>\<open>"2024abc"\<close> parses to 2024 and
  \<^verbatim>\<open>"3.9"\<close> to 3.
\<close>

theorem transcript_integer_prefix:
  assumes "req_method req = ''GET''" and "API_KEY rt = Some apiKey" and "apiKey \<noteq> []"
    and "query req ''ticker'' = Some (QStr t)"
    and "ticker_regex_test (trim (toUpperCase (unicode_upper rt) t))"
    and "q_truthy (query req ''year'')" and "q_truthy (query req ''quarter'')"
    and "parseInt (q_to_string (query req ''year'')) = Some y" and "2000 \<le> y" and "y \<le> 2030"
    and "parseInt (q_to_string (query req ''quarter'')) = Some q" and "1 \<le> q" and "q \<le> 4"
  shows "snd (transcript_handler req rt up)
           = [api_request (''https://api.api-ninjas.com/v1/earningstranscript?ticker=''
                             @ trim (toUpperCase (unicode_upper rt) t) @ ''&year='' @ show_int y
                             @ ''&quarter='' @ show_int q) apiKey]
       \<and> parseInt ''2024abc'' = Some 2024 \<and> show_int 2024 = ''2024''
       \<and> parseInt ''3.9'' = Some 3 \<and> show_int 3 = ''3''"
proof -
  have 1: "parseInt ''2024abc'' = Some 2024" by code_simp
  have 2: "show_int 2024 = ''2024''" by code_simp
  have 3: "parseInt ''3.9'' = Some 3" by code_simp
  have 4: "show_int 3 = ''3''" by code_simp
  from transcript_calls_valid[OF assms] 1 2 3 4 show ?thesis
    by (simp add: transcript_url_def)
qed

theorem transcript_integer_prefix_witness:
  "snd (transcript_handler (transcript_request ''MSFT'' ''2024abc'' ''3.9'') example_runtime upstream_404)
     = [api_request ''https://api.api-ninjas.com/v1/earningstranscript?ticker=MSFT&year=2024&quarter=3'' ''secret'']"
proof -
  have m: "req_method (transcript_request ''MSFT'' ''2024abc'' ''3.9'') = ''GET''"
    by (simp add: transcript_request_def)
  have k: "API_KEY example_runtime = Some ''secret''"
    by (simp add: example_runtime_def)
  have t: "query (transcript_request ''MSFT'' ''2024abc'' ''3.9'') ''ticker'' = Some (QStr ''MSFT'')"
    by (simp add: transcript_request_def)
  have n: "trim (toUpperCase (unicode_upper example_runtime) ''MSFT'') = ''MSFT''" by code_simp
  have r: "ticker_regex_test (trim (toUpperCase (unicode_upper example_runtime) ''MSFT''))" by code_simp
  have qy: "q_truthy (query (transcript_request ''MSFT'' ''2024abc'' ''3.9'') ''year'')"
    by (simp add: transcript_request_def)
  have qq: "q_truthy (query (transcript_request ''MSFT'' ''2024abc'' ''3.9'') ''quarter'')"
    by (simp add: transcript_request_def)
  have "parseInt ''2024abc'' = Some 2024" by code_simp
  then have y: "parseInt (q_to_string (query (transcript_request ''MSFT'' ''2024abc'' ''3.9'') ''year'')) = Some 2024"
    by (simp add: transcript_request_def)
  have "parseInt ''3.9'' = Some 3" by code_simp
  then have q: "parseInt (q_to_string (query (transcript_request ''MSFT'' ''2024abc'' ''3.9'') ''quarter'')) = Some 3"
    by (simp add: transcript_request_def)
  have sy: "show_int 2024 = ''2024''" by code_simp
  have sq: "show_int 3 = ''3''" by code_simp
  from transcript_integer_prefix[OF m k _ t r qy qq y _ _ q, of upstream_404]
  show ?thesis by (simp add: n sy sq)
qed

text \<open>
  Claim C10: in both handlers the \<^verbatim>\<open>OPTIONS\<close> short-circuit and the method check come
  before the API key check. Whatever the environment, an \<^verbatim>\<open>OPTIONS\<close> request gets 200 with
  no body and any method other than \<^verbatim>\<open>OPTIONS\<close> and \<^verbatim>\<open>GET\<close> gets 405; neither issues
  an outbound request. Every response of both handlers carries the three CORS headers.
\<close>

theorem preflight_and_method_precede_key:
  "(req_method req = ''OPTIONS'' \<longrightarrow>
      transcript_handler req rt up = (\<lparr>headers = cors_headers, statusCode = 200, body = None\<rparr>, [])
      \<and> stocks_handler req rt up order
          = (Some \<lparr>headers = cors_headers, statusCode = 200, body = None\<rparr>, []))
   \<and> (req_method req \<noteq> ''OPTIONS'' \<and> req_method req \<noteq> ''GET'' \<longrightarrow>
      transcript_handler req rt up =
        (\<lparr>headers = cors_headers, statusCode = 405,
          body = Some (JObj [(''error'', JStr ''Method not allowed''),
                             (''message'', JStr ''This endpoint only accepts GET requests'')])\<rparr>, [])
      \<and> stocks_handler req rt up order =
        (Some \<lparr>headers = cors_headers, statusCode = 405,
          body = Some (JObj [(''error'', JStr ''Method not allowed''),
                             (''message'', JStr ''This endpoint only accepts GET requests'')])\<rparr>, []))
   \<and> headers (fst (transcript_handler req rt up)) = cors_headers
   \<and> (\<forall>res. fst (stocks_handler req rt up order) = Some res \<longrightarrow> headers res = cors_headers)
   \<and> cors_headers = [(''Access-Control-Allow-Origin'', ''*''),
                      (''Access-Control-Allow-Methods'', ''GET, OPTIONS''),
                      (''Access-Control-Allow-Headers'', ''Content-Type'')]"
proof -
  let ?res = "\<lparr>headers = cors_headers, statusCode = 200, body = None\<rparr>"
  have 1: "req_method req = ''OPTIONS'' \<longrightarrow>
      transcript_handler req rt up = (?res, [])
      \<and> stocks_handler req rt up order = (Some ?res, [])"
    by (simp add: transcript_handler_def stocks_handler_def cors_response status_end_def)
  have 2: "req_method req \<noteq> ''OPTIONS'' \<and> req_method req \<noteq> ''GET'' \<longrightarrow>
      transcript_handler req rt up =
        (\<lparr>headers = cors_headers, statusCode = 405,
          body = Some (JObj [(''error'', JStr ''Method not allowed''),
                             (''message'', JStr ''This endpoint only accepts GET requests'')])\<rparr>, [])
      \<and> stocks_handler req rt up order =
        (Some \<lparr>headers = cors_headers, statusCode = 405,
          body = Some (JObj [(''error'', JStr ''Method not allowed''),
                             (''message'', JStr ''This endpoint only accepts GET requests'')])\<rparr>, [])"
    by (simp add: transcript_handler_def stocks_handler_def cors_response status_json_def
        method_not_allowed_def)
  have try_headers: "headers r = cors_headers"
    if "fst (transcript_try req rt up ?res) = Inr r" for r
    using that
    by (auto simp: transcript_try_def status_json_def Let_def
        split: option.splits if_splits qval.splits prod.splits sum.splits)
  have 3: "headers (fst (transcript_handler req rt up)) = cors_headers"
  proof (cases "transcript_try req rt up ?res")
    case (Pair r calls)
    then show ?thesis
      using try_headers[of "projr r"]
      by (cases r)
         (auto simp: transcript_handler_def cors_response status_json_def status_end_def
            transcript_catch_def Let_def)
  qed
  have 4: "\<forall>res. fst (stocks_handler req rt up order) = Some res \<longrightarrow> headers res = cors_headers"
    by (auto simp: stocks_handler_def cors_response status_json_def status_end_def Let_def
        split: option.splits if_splits)
  from 1 2 3 4 show ?thesis by (simp add: cors_headers_def)
qed

theorem preflight_and_method_precede_key_witness:
  "transcript_handler (stocks_request ''OPTIONS'') unconfigured_runtime upstream_404
     = (\<lparr>headers = cors_headers, statusCode = 200, body = None\<rparr>, [])
   \<and> stocks_handler (stocks_request ''OPTIONS'') unconfigured_runtime upstream_404 [0, 1, 2, 3, 4]
     = (Some \<lparr>headers = cors_headers, statusCode = 200, body = None\<rparr>, [])
   \<and> statusCode (fst (transcript_handler (stocks_request ''POST'') unconfigured_runtime upstream_404)) = 405
   \<and> map_option statusCode (fst (stocks_handler (stocks_request ''POST'') unconfigured_runtime upstream_404 [0, 1, 2, 3, 4])) = Some 405
   \<and> API_KEY unconfigured_runtime = None"
  using preflight_and_method_precede_key[of "stocks_request ''OPTIONS''" unconfigured_runtime upstream_404 "[0, 1, 2, 3, 4]"]
        preflight_and_method_precede_key[of "stocks_request ''POST''" unconfigured_runtime upstream_404 "[0, 1, 2, 3, 4]"]
  by (simp add: stocks_request_def unconfigured_runtime_def)

end
